theory Spec2Isabelle
  imports Complex_Main
begin

section \<open>Data model of \<^verbatim>\<open>horovod/torch/mpi_ops.py\<close>\<close>

text \<open>
  The module is rank-local Python: it chooses a divisor and a reduction op, validates the
  tensor, calls one entry point of the native library \<^verbatim>\<open>mpi_lib\<close>, and keeps the operands
  of every call in flight in the module-level dictionary \<^verbatim>\<open>_handle_map\<close>. A leading
  underscore of a Python name is written \<open>u_\<close> here.
\<close>

text \<open>The reduction op values \<^verbatim>\<open>Average\<close>, \<^verbatim>\<open>Sum\<close>, \<^verbatim>\<open>Adasum\<close>.\<close>

datatype reduce_op = Average | Sum | Adasum

text \<open>Every exception the module raises or lets through is a value.\<close>

datatype error =
    ValueError string
  | NotImplementedError string
  | HorovodInternalError string
  | ZeroDivisionError
  | IndexError
  | RuntimeError string

text \<open>
  The topology and build facts the module reads through \<^verbatim>\<open>_basics\<close> and
  \<^verbatim>\<open>horovod.common.util\<close>: \<^verbatim>\<open>size()\<close>, \<^verbatim>\<open>local_size()\<close>, \<^verbatim>\<open>rank()\<close>,
  \<^verbatim>\<open>rocm_built()\<close>, \<^verbatim>\<open>nccl_built()\<close>, \<^verbatim>\<open>is_homogeneous()\<close> and
  \<^verbatim>\<open>gpu_available('torch')\<close>. They are supplied by another component and are parameters
  here. Rank counts and ranks are counts of processes, hence natural numbers.
\<close>

record basics =
  hvd_size :: nat
  local_size :: nat
  rank :: nat
  rocm_built :: bool
  nccl_built :: bool
  is_homogeneous :: bool
  gpu_available :: bool

text \<open>
  What the dispatch reads of a tensor: \<^verbatim>\<open>tensor.type()\<close>, \<^verbatim>\<open>tensor.device.type\<close> and
  \<^verbatim>\<open>tensor.is_contiguous()\<close>; \<open>ident\<close> tells two tensor objects apart.
\<close>

record tensor =
  type_str :: string
  device_type :: string
  is_contiguous :: bool
  ident :: nat

text \<open>
  The split sizes handed to the all-to-all entry point: the caller's tensor, or a fresh
  int32 CPU tensor that \<^verbatim>\<open>torch.tensor(splits, dtype=torch.int32, device='cpu')\<close> builds
  from a Python list (the empty list when \<^verbatim>\<open>splits is None\<close>).
\<close>

datatype splits_arg = SplitsNone | SplitsList "int list" | SplitsTensor tensor

datatype splits_tensor = GivenTensor tensor | NewInt32CpuTensor "int list"

text \<open>
  An entry of \<^verbatim>\<open>_handle_map\<close> is a tuple of operands: \<^verbatim>\<open>(tensor, output)\<close>,
  \<^verbatim>\<open>(tuple(tensors), tuple(outputs))\<close> or \<^verbatim>\<open>(tensor, splits, output)\<close>. The module stores
  tuples of length two and three only.
\<close>

datatype operand = Tensor tensor | Tensors "tensor list" | Splits splits_tensor

datatype entry = Tuple2 operand operand | Tuple3 operand operand operand

text \<open>\<^verbatim>\<open>entry[-1]\<close>\<close>

fun tuple_last :: "entry \<Rightarrow> operand" where
  "tuple_last (Tuple2 a b) = b"
| "tuple_last (Tuple3 a b c) = c"

text \<open>
  One call of an asynchronous entry point of \<^verbatim>\<open>mpi_lib\<close>, with the arguments in the order
  the module passes them; the first component is the attribute name that
  \<^verbatim>\<open>getattr(mpi_lib, function)\<close> resolves.
\<close>

datatype call =
    AllreduceCall string tensor tensor nat string reduce_op real real
  | GroupedAllreduceCall string "tensor list" "tensor list" nat string reduce_op real real
  | AllgatherCall string tensor tensor string
  | BroadcastCall string tensor tensor int string
  | AlltoallCall string tensor splits_tensor tensor string

text \<open>
  The native library is outside this module and is a parameter: \<open>hasattr\<close> says which
  attribute names it has, \<open>call_async\<close> answers a submission (given the submissions made
  before it) with a handle or with the message of a \<^verbatim>\<open>RuntimeError\<close>, and
  \<open>horovod_torch_wait_and_clear\<close> returns normally (\<open>None\<close>) or raises a
  \<^verbatim>\<open>RuntimeError\<close> with a message.
\<close>

record mpi_lib =
  hasattr :: "string \<Rightarrow> bool"
  call_async :: "call list \<Rightarrow> call \<Rightarrow> string + int"
  horovod_torch_wait_and_clear :: "int \<Rightarrow> string option"

text \<open>
  The state the module changes: the dictionary \<^verbatim>\<open>_handle_map\<close>, the calls made to the
  native library so far (oldest first) and the warnings emitted so far.
\<close>

record state =
  u_handle_map :: "int \<rightharpoonup> entry"
  submitted :: "call list"
  warnings :: "string list"

section \<open>Helpers of the embedding\<close>

text \<open>\<^verbatim>\<open>s.replace('.', '_')\<close>\<close>

definition replace_dot :: "string \<Rightarrow> string" where
  "replace_dot s = map (\<lambda>c. if c = CHR ''.'' then CHR ''_'' else c) s"

text \<open>\<^verbatim>\<open>name.encode() if name is not None else _NULL\<close>, with \<^verbatim>\<open>_NULL = ""\<close>\<close>

definition encode_name :: "string option \<Rightarrow> string" where
  "encode_name name = (case name of None \<Rightarrow> [] | Some n \<Rightarrow> n)"

text \<open>
  \<^verbatim>\<open>int(a / b)\<close> on two rank counts: Python's true division raises
  \<^verbatim>\<open>ZeroDivisionError\<close> on a zero divisor; on non-negative counts (C ints, exactly
  representable as floats) truncating the quotient is the integer quotient.
\<close>

definition int_truediv :: "nat \<Rightarrow> nat \<Rightarrow> error + nat" where
  "int_truediv a b = (if b = 0 then Inl ZeroDivisionError else Inr (a div b))"

text \<open>
  Modelled from the spec: \<^verbatim>\<open>num_rank_is_power_2\<close> of \<^verbatim>\<open>horovod.common.util\<close>, which is
  imported by the module and is not part of it. The spec requires the count "to be a power
  of two"; an exponent below the count itself always suffices.
\<close>

definition num_rank_is_power_2 :: "nat \<Rightarrow> bool" where
  "num_rank_is_power_2 n = (\<exists>k\<in>{..<n}. n = 2 ^ k)"

section \<open>Validation and the divisor/op policy\<close>

definition u_check_function :: "mpi_lib \<Rightarrow> (tensor \<Rightarrow> string) \<Rightarrow> tensor \<Rightarrow> error + string" where
  "u_check_function lib function_factory tensor =
     (let function = function_factory tensor in
      if \<not> hasattr lib function then
        Inl (ValueError (''Tensor type '' @ type_str tensor @ '' is not supported.''))
      else if \<not> is_contiguous tensor then
        Inl (ValueError ''Tensor is required to be contiguous.'')
      else Inr function)"

definition u_allreduce_function_factory :: "tensor \<Rightarrow> string" where
  "u_allreduce_function_factory tensor =
     ''horovod_torch_allreduce_async_'' @ replace_dot (type_str tensor)"

definition u_grouped_allreduce_function_factory :: "tensor \<Rightarrow> string" where
  "u_grouped_allreduce_function_factory tensor =
     ''horovod_torch_grouped_allreduce_async_'' @ replace_dot (type_str tensor)"

definition u_allgather_function_factory :: "tensor \<Rightarrow> string" where
  "u_allgather_function_factory tensor =
     ''horovod_torch_allgather_async_'' @ replace_dot (type_str tensor)"

definition u_broadcast_function_factory :: "tensor \<Rightarrow> string" where
  "u_broadcast_function_factory tensor =
     ''horovod_torch_broadcast_async_'' @ replace_dot (type_str tensor)"

definition u_alltoall_function_factory :: "tensor \<Rightarrow> string" where
  "u_alltoall_function_factory tensor =
     ''horovod_torch_alltoall_async_'' @ replace_dot (type_str tensor)"

definition heterogeneous_msg :: string where
  "heterogeneous_msg = ''Running GPU Adasum on heterogeneous cluster is not supported yet.''"

definition non_power_2_nodes_msg :: string where
  "non_power_2_nodes_msg = ''Running GPU Adasum with non-power of 2 nodes is not supported yet.''"

definition non_power_2_ranks_msg :: string where
  "non_power_2_ranks_msg = ''Running Adasum with non-power of 2 ranks is not supported yet.''"

definition adasum_mpi_warning :: string where
  "adasum_mpi_warning =
     ''Adasum reduction does not currently support GPU reduction using MPI. Tensors are '' @
     ''copied to CPU memory instead. To use Adasum for GPU reduction, please compile Horovod '' @
     ''with HOROVOD_GPU_OPERATIONS=NCCL.''"

text \<open>
  The \<^verbatim>\<open>if op == Average: ... elif op == Adasum: ... else: ...\<close> chain that opens both
  \<^verbatim>\<open>_allreduce_async\<close> (on \<^verbatim>\<open>tensor.device.type\<close>) and \<^verbatim>\<open>_grouped_allreduce_async\<close>
  (on \<^verbatim>\<open>tensors[0].device.type\<close>), the same text in both. It yields the divisor, the op
  to pass on and the warnings emitted on the way, or the exception raised.
\<close>

definition set_divisor :: "basics \<Rightarrow> reduce_op \<Rightarrow> string \<Rightarrow> error + (nat \<times> reduce_op \<times> string list)" where
  "set_divisor b op dev =
     (if op = Average then
        (if rocm_built b then Inr (hvd_size b, Sum, [])
         else Inr (1, op, []))
      else if op = Adasum then
        (if dev \<noteq> ''cpu'' \<and> gpu_available b then
           (if nccl_built b then
              (if \<not> is_homogeneous b then Inl (NotImplementedError heterogeneous_msg)
               else
                 (case int_truediv (hvd_size b) (local_size b) of
                    Inl e \<Rightarrow> Inl e
                  | Inr q \<Rightarrow>
                      if \<not> num_rank_is_power_2 q then
                        Inl (NotImplementedError non_power_2_nodes_msg)
                      else if rocm_built b then Inr (local_size b, op, [])
                      else Inr (1, op, [])))
            else Inr (1, op, [adasum_mpi_warning]))
         else
           (if \<not> num_rank_is_power_2 (hvd_size b) then
              Inl (NotImplementedError non_power_2_ranks_msg)
            else Inr (1, op, [])))
      else Inr (1, op, []))"

section \<open>The asynchronous dispatch functions\<close>

text \<open>
  Each function returns the handle or the exception, together with the state it leaves
  behind: an exception raised after the native call keeps the submission made.
\<close>

text \<open>
  The common tail of the five functions: call the entry point, wrap a \<^verbatim>\<open>RuntimeError\<close>
  into \<^verbatim>\<open>HorovodInternalError\<close>, store the operands under the handle with
  \<^verbatim>\<open>_handle_map[handle] = ...\<close>, return the handle.
\<close>

definition submit_and_register :: "mpi_lib \<Rightarrow> call \<Rightarrow> entry \<Rightarrow> state \<Rightarrow> (error + int) \<times> state" where
  "submit_and_register lib c e s =
     (let s1 = s\<lparr>submitted := submitted s @ [c]\<rparr> in
      case call_async lib (submitted s) c of
        Inl msg \<Rightarrow> (Inl (HorovodInternalError msg), s1)
      | Inr handle \<Rightarrow> (Inr handle, s1\<lparr>u_handle_map := (u_handle_map s1)(handle \<mapsto> e)\<rparr>))"

definition u_allreduce_async ::
  "basics \<Rightarrow> mpi_lib \<Rightarrow> tensor \<Rightarrow> tensor \<Rightarrow> string option \<Rightarrow> reduce_op \<Rightarrow> real \<Rightarrow> real \<Rightarrow>
   state \<Rightarrow> (error + int) \<times> state" where
  "u_allreduce_async b lib tensor output name op prescale_factor postscale_factor s =
     (case set_divisor b op (device_type tensor) of
        Inl e \<Rightarrow> (Inl e, s)
      | Inr (divisor, op', ws) \<Rightarrow>
          (let s1 = s\<lparr>warnings := warnings s @ ws\<rparr> in
           case u_check_function lib u_allreduce_function_factory tensor of
             Inl e \<Rightarrow> (Inl e, s1)
           | Inr function \<Rightarrow>
               submit_and_register lib
                 (AllreduceCall function tensor output divisor (encode_name name) op'
                    prescale_factor postscale_factor)
                 (Tuple2 (Tensor tensor) (Tensor output)) s1))"

text \<open>
  \<^verbatim>\<open>tensors[0]\<close> raises \<^verbatim>\<open>IndexError\<close> on an empty list. Every path through the function
  evaluates it before any effect: in the test of the \<^verbatim>\<open>Adasum\<close> branch, or else in the
  call of \<^verbatim>\<open>_check_function\<close>; the other branches raise nothing before that.
\<close>

definition u_grouped_allreduce_async ::
  "basics \<Rightarrow> mpi_lib \<Rightarrow> tensor list \<Rightarrow> tensor list \<Rightarrow> string option \<Rightarrow> reduce_op \<Rightarrow> real \<Rightarrow> real \<Rightarrow>
   state \<Rightarrow> (error + int) \<times> state" where
  "u_grouped_allreduce_async b lib tensors outputs name op prescale_factor postscale_factor s =
     (case tensors of
        [] \<Rightarrow> (Inl IndexError, s)
      | tensors0 # _ \<Rightarrow>
          (case set_divisor b op (device_type tensors0) of
             Inl e \<Rightarrow> (Inl e, s)
           | Inr (divisor, op', ws) \<Rightarrow>
               (let s1 = s\<lparr>warnings := warnings s @ ws\<rparr> in
                case u_check_function lib u_grouped_allreduce_function_factory tensors0 of
                  Inl e \<Rightarrow> (Inl e, s1)
                | Inr function \<Rightarrow>
                    submit_and_register lib
                      (GroupedAllreduceCall function tensors outputs divisor (encode_name name) op'
                         prescale_factor postscale_factor)
                      (Tuple2 (Tensors tensors) (Tensors outputs)) s1)))"

definition u_allgather_async ::
  "mpi_lib \<Rightarrow> tensor \<Rightarrow> tensor \<Rightarrow> string option \<Rightarrow> state \<Rightarrow> (error + int) \<times> state" where
  "u_allgather_async lib tensor output name s =
     (case u_check_function lib u_allgather_function_factory tensor of
        Inl e \<Rightarrow> (Inl e, s)
      | Inr function \<Rightarrow>
          submit_and_register lib (AllgatherCall function tensor output (encode_name name))
            (Tuple2 (Tensor tensor) (Tensor output)) s)"

definition u_broadcast_async ::
  "mpi_lib \<Rightarrow> tensor \<Rightarrow> tensor \<Rightarrow> int \<Rightarrow> string option \<Rightarrow> state \<Rightarrow> (error + int) \<times> state" where
  "u_broadcast_async lib tensor output root_rank name s =
     (case u_check_function lib u_broadcast_function_factory tensor of
        Inl e \<Rightarrow> (Inl e, s)
      | Inr function \<Rightarrow>
          submit_and_register lib (BroadcastCall function tensor output root_rank (encode_name name))
            (Tuple2 (Tensor tensor) (Tensor output)) s)"

text \<open>
  The first lines of \<^verbatim>\<open>_alltoall_async\<close>: a missing \<^verbatim>\<open>splits\<close> becomes an empty int32
  CPU tensor, a tensor is kept, and any other value is converted with
  \<^verbatim>\<open>torch.tensor(splits, dtype=torch.int32, device='cpu')\<close>, which raises a
  \<^verbatim>\<open>RuntimeError\<close> for an entry that does not fit in 32 signed bits. The conversion runs
  before \<^verbatim>\<open>_check_function\<close> and outside the \<^verbatim>\<open>try\<close>, so its error reaches the caller
  as it is.
\<close>

definition int32_range :: "int \<Rightarrow> bool" where
  "int32_range x = (- (2 ^ 31) \<le> x \<and> x < 2 ^ 31)"

fun normalized_splits :: "splits_arg \<Rightarrow> error + splits_tensor" where
  "normalized_splits SplitsNone = Inr (NewInt32CpuTensor [])"
| "normalized_splits (SplitsList xs) =
     (if list_all int32_range xs then Inr (NewInt32CpuTensor xs)
      else Inl (RuntimeError ''value cannot be converted to type int32 without overflow''))"
| "normalized_splits (SplitsTensor t) = Inr (GivenTensor t)"

definition u_alltoall_async ::
  "mpi_lib \<Rightarrow> tensor \<Rightarrow> splits_arg \<Rightarrow> tensor \<Rightarrow> string option \<Rightarrow> state \<Rightarrow> (error + int) \<times> state" where
  "u_alltoall_async lib tensor splits output name s =
     (case normalized_splits splits of
        Inl e \<Rightarrow> (Inl e, s)
      | Inr splits' \<Rightarrow>
          (case u_check_function lib u_alltoall_function_factory tensor of
             Inl e \<Rightarrow> (Inl e, s)
           | Inr function \<Rightarrow>
               submit_and_register lib
                 (AlltoallCall function tensor splits' output (encode_name name))
                 (Tuple3 (Tensor tensor) (Splits splits') (Tensor output)) s))"

section \<open>Synchronization\<close>

text \<open>
  \<^verbatim>\<open>synchronize\<close> returns \<^verbatim>\<open>None\<close> for a handle that is not a key of \<^verbatim>\<open>_handle_map\<close>;
  otherwise it waits, and only after a wait that did not raise does it pop the entry and
  return its last component.
\<close>

definition synchronize :: "mpi_lib \<Rightarrow> int \<Rightarrow> state \<Rightarrow> (error + operand option) \<times> state" where
  "synchronize lib handle s =
     (case u_handle_map s handle of
        None \<Rightarrow> (Inr None, s)
      | Some e \<Rightarrow>
          (case horovod_torch_wait_and_clear lib handle of
             Some msg \<Rightarrow> (Inl (HorovodInternalError msg), s)
           | None \<Rightarrow>
               (Inr (Some (tuple_last e)), s\<lparr>u_handle_map := (u_handle_map s)(handle := None)\<rparr>)))"

section \<open>Backward rules of allgather and broadcast\<close>

text \<open>
  A tensor is seen here through its entries along axis 0 (its rows), of any type. The
  collectives that a backward rule issues, \<^verbatim>\<open>allreduce(grad_output, op=Sum)\<close> and
  \<^verbatim>\<open>allgather(dim_t)\<close>, end in the native engine; the rank-local code takes them as
  parameters that return a tensor or raise. Ranks and extents are natural numbers, for
  which every version of \<^verbatim>\<open>torch.narrow\<close> agrees: the slice exists iff
  \<open>start + length\<close> does not exceed the extent, and it is an error otherwise. The
  extents travel in an int32 tensor, \<^verbatim>\<open>torch.IntTensor([ctx.dim])\<close>; its range is not
  modelled.
\<close>

text \<open>\<^verbatim>\<open>t.narrow(0, start, length)\<close>\<close>

definition narrow0 :: "'a list \<Rightarrow> nat \<Rightarrow> nat \<Rightarrow> error + 'a list" where
  "narrow0 t start len =
     (if start + len \<le> length t then Inr (take len (drop start t))
      else Inl (RuntimeError ''start + length exceeds dimension size''))"

text \<open>\<^verbatim>\<open>t.view(n)\<close> of a one-dimensional tensor: the number of elements must be \<open>n\<close>.\<close>

definition view1 :: "'a list \<Rightarrow> nat \<Rightarrow> error + 'a list" where
  "view1 t n =
     (if length t = n then Inr t
      else Inl (RuntimeError ''shape is invalid for input size''))"

text \<open>
  \<^verbatim>\<open>HorovodAllgather.backward\<close>, with \<^verbatim>\<open>size()\<close> (as \<open>world_size\<close>), \<^verbatim>\<open>rank()\<close>
  and \<^verbatim>\<open>ctx.dim\<close> as arguments; the local \<^verbatim>\<open>dim\<close> is written \<open>dim'\<close>.
\<close>

definition HorovodAllgather_backward ::
  "('a list \<Rightarrow> reduce_op \<Rightarrow> error + 'a list) \<Rightarrow> (nat list \<Rightarrow> error + nat list) \<Rightarrow>
   nat \<Rightarrow> nat \<Rightarrow> nat \<Rightarrow> 'a list \<Rightarrow> error + 'a list" where
  "HorovodAllgather_backward allreduce allgather world_size r ctx_dim grad_output =
     (case allreduce grad_output Sum of
        Inl e \<Rightarrow> Inl e
      | Inr grad_reduced \<Rightarrow>
          (let dim_t = [ctx_dim] in
           case allgather dim_t of
             Inl e \<Rightarrow> Inl e
           | Inr gathered \<Rightarrow>
               (case view1 gathered world_size of
                  Inl e \<Rightarrow> Inl e
                | Inr dim' \<Rightarrow>
                    (case (if r \<noteq> 0 then
                             (case narrow0 dim' 0 r of
                                Inl e \<Rightarrow> Inl e
                              | Inr lower \<Rightarrow> Inr (sum_list lower))
                           else Inr 0) of
                       Inl e \<Rightarrow> Inl e
                     | Inr offset \<Rightarrow> narrow0 grad_reduced offset ctx_dim))))"

text \<open>
  \<^verbatim>\<open>HorovodBroadcast.backward\<close>, with \<^verbatim>\<open>rank()\<close> and \<^verbatim>\<open>ctx.root_rank\<close> as arguments;
  \<^verbatim>\<open>grad_reduced *= 0\<close> multiplies every entry by zero, in the arithmetic of the entries.
\<close>

definition HorovodBroadcast_backward ::
  "('a list \<Rightarrow> reduce_op \<Rightarrow> error + 'a list) \<Rightarrow> nat \<Rightarrow> int \<Rightarrow> ('a::{times,zero}) list \<Rightarrow>
   error + 'a list" where
  "HorovodBroadcast_backward allreduce r ctx_root_rank grad_output =
     (case allreduce grad_output Sum of
        Inl e \<Rightarrow> Inl e
      | Inr grad_reduced \<Rightarrow>
          Inr (if int r \<noteq> ctx_root_rank then map (\<lambda>x. x * 0) grad_reduced
               else grad_reduced))"

text \<open>
  Modelled from the spec: the result of the native engine's reduction with \<^verbatim>\<open>Sum\<close>, which
  is not part of this module. The spec has the values of all ranks "summed", position by
  position, on tensors of the same shape on every rank; \<open>ts\<close> lists the ranks'
  tensors in rank order.
\<close>

fun reduce_Sum :: "('a::plus) list list \<Rightarrow> 'a list" where
  "reduce_Sum [] = []"
| "reduce_Sum [t] = t"
| "reduce_Sum (t # ts) = map2 (+) t (reduce_Sum ts)"

text \<open>
  Modelled from the spec: the result of the native engine's gather, which is not part of
  this module. The spec has it "concatenate each rank's tensor along axis 0", in rank
  order.
\<close>

definition gather_forward :: "'a list list \<Rightarrow> 'a list" where
  "gather_forward ts = concat ts"

text \<open>
  The entries of a floating-point gradient: a finite value, an infinity or NaN, with the
  addition and multiplication of IEEE 754 on the special values. Rounding of finite
  results and the sign of zero play no part below and are not modelled.
\<close>

datatype float_value = is_finite: Finite real | PosInf | NegInf | NaN

instantiation float_value :: "{zero, plus, times}"
begin

definition zero_float_value :: float_value where
  "zero_float_value = Finite 0"

fun plus_float_value :: "float_value \<Rightarrow> float_value \<Rightarrow> float_value" where
  "plus_float_value NaN y = NaN"
| "plus_float_value x NaN = NaN"
| "plus_float_value PosInf NegInf = NaN"
| "plus_float_value NegInf PosInf = NaN"
| "plus_float_value PosInf y = PosInf"
| "plus_float_value x PosInf = PosInf"
| "plus_float_value NegInf y = NegInf"
| "plus_float_value x NegInf = NegInf"
| "plus_float_value (Finite a) (Finite b) = Finite (a + b)"

fun times_float_value :: "float_value \<Rightarrow> float_value \<Rightarrow> float_value" where
  "times_float_value NaN y = NaN"
| "times_float_value x NaN = NaN"
| "times_float_value (Finite a) (Finite b) = Finite (a * b)"
| "times_float_value PosInf (Finite b) =
     (if b = 0 then NaN else if 0 < b then PosInf else NegInf)"
| "times_float_value NegInf (Finite b) =
     (if b = 0 then NaN else if 0 < b then NegInf else PosInf)"
| "times_float_value (Finite a) PosInf =
     (if a = 0 then NaN else if 0 < a then PosInf else NegInf)"
| "times_float_value (Finite a) NegInf =
     (if a = 0 then NaN else if 0 < a then NegInf else PosInf)"
| "times_float_value PosInf PosInf = PosInf"
| "times_float_value PosInf NegInf = NegInf"
| "times_float_value NegInf PosInf = NegInf"
| "times_float_value NegInf NegInf = PosInf"

instance ..

end

section \<open>Concrete values for the worked instances\<close>

definition cpu_float_tensor :: "nat \<Rightarrow> tensor" where
  "cpu_float_tensor i =
     \<lparr>type_str = ''torch.FloatTensor'', device_type = ''cpu'', is_contiguous = True,
      ident = i\<rparr>"

definition cuda_float_tensor :: "nat \<Rightarrow> tensor" where
  "cuda_float_tensor i =
     \<lparr>type_str = ''torch.cuda.FloatTensor'', device_type = ''cuda'', is_contiguous = True,
      ident = i\<rparr>"

definition strided_tensor :: "nat \<Rightarrow> tensor" where
  "strided_tensor i =
     \<lparr>type_str = ''torch.FloatTensor'', device_type = ''cpu'', is_contiguous = False,
      ident = i\<rparr>"

definition bool_tensor :: "nat \<Rightarrow> tensor" where
  "bool_tensor i =
     \<lparr>type_str = ''torch.BoolTensor'', device_type = ''cpu'', is_contiguous = True,
      ident = i\<rparr>"

text \<open>
  A native library with the float entry points on CPU and CUDA; it numbers its handles by
  the submissions seen, and its waits succeed.
\<close>

definition float_lib :: mpi_lib where
  "float_lib =
     \<lparr>hasattr = (\<lambda>f. f \<in> set
        [''horovod_torch_allreduce_async_torch_FloatTensor'',
         ''horovod_torch_allreduce_async_torch_cuda_FloatTensor'',
         ''horovod_torch_grouped_allreduce_async_torch_FloatTensor'',
         ''horovod_torch_grouped_allreduce_async_torch_cuda_FloatTensor'',
         ''horovod_torch_allgather_async_torch_FloatTensor'',
         ''horovod_torch_broadcast_async_torch_FloatTensor'',
         ''horovod_torch_alltoall_async_torch_FloatTensor'']),
      call_async = (\<lambda>before c. Inr (int (length before) + 1)),
      horovod_torch_wait_and_clear = (\<lambda>h. None)\<rparr>"

text \<open>The same library, answering every submission with handle 7.\<close>

definition repeating_lib :: mpi_lib where
  "repeating_lib = float_lib\<lparr>call_async := (\<lambda>before c. Inr 7)\<rparr>"

text \<open>The same library, whose waits raise.\<close>

definition failing_wait_lib :: mpi_lib where
  "failing_wait_lib = float_lib\<lparr>horovod_torch_wait_and_clear := (\<lambda>h. Some ''NCCL error'')\<rparr>"

definition topology :: "nat \<Rightarrow> nat \<Rightarrow> bool \<Rightarrow> bool \<Rightarrow> bool \<Rightarrow> bool \<Rightarrow> basics" where
  "topology n l rocm nccl homog gpu =
     \<lparr>hvd_size = n, local_size = l, rank = 0, rocm_built = rocm, nccl_built = nccl,
      is_homogeneous = homog, gpu_available = gpu\<rparr>"

definition initial_state :: state where
  "initial_state = \<lparr>u_handle_map = Map.empty, submitted = [], warnings = []\<rparr>"

text \<open>A state with one operation in flight under handle 7.\<close>

definition pending_state :: state where
  "pending_state =
     \<lparr>u_handle_map = [7 \<mapsto> Tuple2 (Tensor (cpu_float_tensor 1)) (Tensor (cpu_float_tensor 2))],
      submitted = [], warnings = []\<rparr>"

section \<open>Facts about the helpers\<close>

lemma num_rank_is_power_2_iff: "num_rank_is_power_2 n \<longleftrightarrow> (\<exists>k. n = 2 ^ k)"
proof
  assume "num_rank_is_power_2 n"
  then show "\<exists>k. n = 2 ^ k"
    by (auto simp: num_rank_is_power_2_def)
next
  assume "\<exists>k. n = 2 ^ k"
  then obtain k where k: "n = 2 ^ k" ..
  have "k < (2::nat) ^ k"
    by (rule less_exp)
  with k have "k \<in> {..<n}"
    by simp
  with k show "num_rank_is_power_2 n"
    unfolding num_rank_is_power_2_def by blast
qed

lemma power_of_two_4: "\<exists>k. (4::nat) = 2 ^ k"
  using num_rank_is_power_2_iff [of 4]
  by (simp add: num_rank_is_power_2_def lessThan_nat_numeral)

lemma not_power_of_two_3: "\<nexists>k. (3::nat) = 2 ^ k"
  using num_rank_is_power_2_iff [of 3]
  by (simp add: num_rank_is_power_2_def lessThan_nat_numeral)

lemma submit_and_register_submitted:
  "submitted (snd (submit_and_register lib c e s)) = submitted s @ [c]"
  by (simp add: submit_and_register_def Let_def split: sum.split)

lemma submit_and_register_warnings:
  "warnings (snd (submit_and_register lib c e s)) = warnings s"
  by (simp add: submit_and_register_def Let_def split: sum.split)

lemma submit_and_register_not_raised:
  "fst (submit_and_register lib c e s) \<noteq> Inl (NotImplementedError msg)"
  "fst (submit_and_register lib c e s) \<noteq> Inl (ValueError msg)"
  by (simp_all add: submit_and_register_def Let_def split: sum.split)

lemma submit_and_register_handle:
  "call_async lib (submitted s) c = Inr h \<Longrightarrow>
   submit_and_register lib c e s =
     (Inr h, s\<lparr>submitted := submitted s @ [c], u_handle_map := (u_handle_map s)(h \<mapsto> e)\<rparr>)"
  by (simp add: submit_and_register_def Let_def)

lemma submit_and_register_internal_error:
  "call_async lib (submitted s) c = Inl msg \<Longrightarrow>
   submit_and_register lib c e s =
     (Inl (HorovodInternalError msg), s\<lparr>submitted := submitted s @ [c]\<rparr>)"
  by (simp add: submit_and_register_def Let_def)

section \<open>The policy, branch by branch\<close>

lemma set_divisor_Average:
  "set_divisor b Average dev =
     Inr (if rocm_built b then hvd_size b else 1, if rocm_built b then Sum else Average, [])"
  by (simp add: set_divisor_def)

lemma set_divisor_Sum: "set_divisor b Sum dev = Inr (1, Sum, [])"
  by (simp add: set_divisor_def)

lemma set_divisor_Adasum_cpu:
  "dev = ''cpu'' \<or> \<not> gpu_available b \<Longrightarrow>
   set_divisor b Adasum dev =
     (if num_rank_is_power_2 (hvd_size b) then Inr (1, Adasum, [])
      else Inl (NotImplementedError non_power_2_ranks_msg))"
  by (auto simp add: set_divisor_def)

lemma set_divisor_Adasum_nccl:
  "dev \<noteq> ''cpu'' \<Longrightarrow> gpu_available b \<Longrightarrow> nccl_built b \<Longrightarrow> local_size b \<noteq> 0 \<Longrightarrow>
   set_divisor b Adasum dev =
     (if \<not> is_homogeneous b then Inl (NotImplementedError heterogeneous_msg)
      else if \<not> num_rank_is_power_2 (hvd_size b div local_size b) then
        Inl (NotImplementedError non_power_2_nodes_msg)
      else Inr (if rocm_built b then local_size b else 1, Adasum, []))"
  by (simp add: set_divisor_def int_truediv_def)

lemma set_divisor_Adasum_no_nccl:
  "dev \<noteq> ''cpu'' \<Longrightarrow> gpu_available b \<Longrightarrow> \<not> nccl_built b \<Longrightarrow>
   set_divisor b Adasum dev = Inr (1, Adasum, [adasum_mpi_warning])"
  by (simp add: set_divisor_def)

section \<open>The dispatch functions, outcome by outcome\<close>

lemma u_allreduce_async_policy_raises:
  "set_divisor b op (device_type tensor) = Inl e \<Longrightarrow>
   u_allreduce_async b lib tensor output name op pre post s = (Inl e, s)"
  by (simp add: u_allreduce_async_def)

lemma u_allreduce_async_check_raises:
  "set_divisor b op (device_type tensor) = Inr (d, op', ws) \<Longrightarrow>
   u_check_function lib u_allreduce_function_factory tensor = Inl e \<Longrightarrow>
   u_allreduce_async b lib tensor output name op pre post s =
     (Inl e, s\<lparr>warnings := warnings s @ ws\<rparr>)"
  by (simp add: u_allreduce_async_def Let_def)

lemma u_allreduce_async_submits:
  "set_divisor b op (device_type tensor) = Inr (d, op', ws) \<Longrightarrow>
   u_check_function lib u_allreduce_function_factory tensor = Inr f \<Longrightarrow>
   u_allreduce_async b lib tensor output name op pre post s =
     submit_and_register lib (AllreduceCall f tensor output d (encode_name name) op' pre post)
       (Tuple2 (Tensor tensor) (Tensor output)) (s\<lparr>warnings := warnings s @ ws\<rparr>)"
  by (simp add: u_allreduce_async_def Let_def)

lemma u_grouped_allreduce_async_policy_raises:
  "set_divisor b op (device_type t0) = Inl e \<Longrightarrow>
   u_grouped_allreduce_async b lib (t0 # rest) outputs name op pre post s = (Inl e, s)"
  by (simp add: u_grouped_allreduce_async_def)

lemma u_grouped_allreduce_async_check_raises:
  "set_divisor b op (device_type t0) = Inr (d, op', ws) \<Longrightarrow>
   u_check_function lib u_grouped_allreduce_function_factory t0 = Inl e \<Longrightarrow>
   u_grouped_allreduce_async b lib (t0 # rest) outputs name op pre post s =
     (Inl e, s\<lparr>warnings := warnings s @ ws\<rparr>)"
  by (simp add: u_grouped_allreduce_async_def Let_def)

lemma u_grouped_allreduce_async_submits:
  "set_divisor b op (device_type t0) = Inr (d, op', ws) \<Longrightarrow>
   u_check_function lib u_grouped_allreduce_function_factory t0 = Inr f \<Longrightarrow>
   u_grouped_allreduce_async b lib (t0 # rest) outputs name op pre post s =
     submit_and_register lib
       (GroupedAllreduceCall f (t0 # rest) outputs d (encode_name name) op' pre post)
       (Tuple2 (Tensors (t0 # rest)) (Tensors outputs)) (s\<lparr>warnings := warnings s @ ws\<rparr>)"
  by (simp add: u_grouped_allreduce_async_def Let_def)

lemma u_check_function_cases:
  "u_check_function lib factory tensor =
     (if \<not> hasattr lib (factory tensor) then
        Inl (ValueError (''Tensor type '' @ type_str tensor @ '' is not supported.''))
      else if \<not> is_contiguous tensor then Inl (ValueError ''Tensor is required to be contiguous.'')
      else Inr (factory tensor))"
  by (simp add: u_check_function_def Let_def)

section \<open>Claims about the divisor/op policy\<close>

text \<open>
  C1. An allreduce requested with \<^verbatim>\<open>op = Average\<close>, single-tensor or grouped, whose tensor
  passes \<^verbatim>\<open>_check_function\<close>, makes exactly one call to the native library: with op
  \<^verbatim>\<open>Sum\<close> and divisor \<^verbatim>\<open>size()\<close> when \<^verbatim>\<open>rocm_built()\<close> holds, with op \<^verbatim>\<open>Average\<close> and
  divisor 1 otherwise.
\<close>

theorem average_op_and_divisor:
  "(u_check_function lib u_allreduce_function_factory tensor = Inr f \<longrightarrow>
      submitted (snd (u_allreduce_async b lib tensor out name Average pre post s)) =
        submitted s @
        [AllreduceCall f tensor out (if rocm_built b then hvd_size b else 1)
           (encode_name name) (if rocm_built b then Sum else Average) pre post]) \<and>
   (u_check_function lib u_grouped_allreduce_function_factory t = Inr g \<longrightarrow>
      submitted (snd (u_grouped_allreduce_async b lib (t # ts) outputs name Average pre post s)) =
        submitted s @
        [GroupedAllreduceCall g (t # ts) outputs (if rocm_built b then hvd_size b else 1)
           (encode_name name) (if rocm_built b then Sum else Average) pre post])"
proof (intro conjI impI)
  assume "u_check_function lib u_allreduce_function_factory tensor = Inr f"
  then show "submitted (snd (u_allreduce_async b lib tensor out name Average pre post s)) =
        submitted s @
        [AllreduceCall f tensor out (if rocm_built b then hvd_size b else 1)
           (encode_name name) (if rocm_built b then Sum else Average) pre post]"
    by (simp add: u_allreduce_async_submits [OF set_divisor_Average] submit_and_register_submitted)
next
  assume "u_check_function lib u_grouped_allreduce_function_factory t = Inr g"
  then show "submitted (snd (u_grouped_allreduce_async b lib (t # ts) outputs name Average pre post s)) =
        submitted s @
        [GroupedAllreduceCall g (t # ts) outputs (if rocm_built b then hvd_size b else 1)
           (encode_name name) (if rocm_built b then Sum else Average) pre post]"
    by (simp add: u_grouped_allreduce_async_submits [OF set_divisor_Average]
        submit_and_register_submitted)
qed

text \<open>The float entry points of the example library accept the example tensors.\<close>

lemma check_cpu_float:
  "u_check_function float_lib u_allreduce_function_factory (cpu_float_tensor i) =
     Inr ''horovod_torch_allreduce_async_torch_FloatTensor''"
  by (simp add: u_check_function_def u_allreduce_function_factory_def float_lib_def
      cpu_float_tensor_def replace_dot_def)

lemma check_grouped_cpu_float:
  "u_check_function float_lib u_grouped_allreduce_function_factory (cpu_float_tensor i) =
     Inr ''horovod_torch_grouped_allreduce_async_torch_FloatTensor''"
  by (simp add: u_check_function_def u_grouped_allreduce_function_factory_def float_lib_def
      cpu_float_tensor_def replace_dot_def)

theorem average_op_and_divisor_witness:
  "submitted (snd (u_allreduce_async (topology 4 2 True True True True) float_lib
       (cpu_float_tensor 1) (cpu_float_tensor 2) None Average 1 1 initial_state)) =
     [AllreduceCall ''horovod_torch_allreduce_async_torch_FloatTensor''
        (cpu_float_tensor 1) (cpu_float_tensor 2) 4 [] Sum 1 1] \<and>
   submitted (snd (u_grouped_allreduce_async (topology 4 2 False True True True) float_lib
       [cpu_float_tensor 1, cpu_float_tensor 3] [cpu_float_tensor 2, cpu_float_tensor 4]
       (Some ''g'') Average 1 1 initial_state)) =
     [GroupedAllreduceCall ''horovod_torch_grouped_allreduce_async_torch_FloatTensor''
        [cpu_float_tensor 1, cpu_float_tensor 3] [cpu_float_tensor 2, cpu_float_tensor 4]
        1 ''g'' Average 1 1]"
  using average_op_and_divisor [where lib = float_lib and tensor = "cpu_float_tensor 1"
      and f = "''horovod_torch_allreduce_async_torch_FloatTensor''"
      and b = "topology 4 2 True True True True" and out = "cpu_float_tensor 2"
      and name = None and pre = 1 and post = 1 and s = initial_state]
    average_op_and_divisor [where lib = float_lib and t = "cpu_float_tensor 1"
      and g = "''horovod_torch_grouped_allreduce_async_torch_FloatTensor''"
      and b = "topology 4 2 False True True True" and ts = "[cpu_float_tensor 3]"
      and outputs = "[cpu_float_tensor 2, cpu_float_tensor 4]"
      and name = "Some ''g''" and pre = 1 and post = 1 and s = initial_state]
  by (simp add: check_cpu_float check_grouped_cpu_float topology_def initial_state_def
      encode_name_def)

lemma example_tensor_device [simp]:
  "device_type (cpu_float_tensor i) = ''cpu''"
  "device_type (cuda_float_tensor i) = ''cuda''"
  "device_type (strided_tensor i) = ''cpu''"
  "device_type (bool_tensor i) = ''cpu''"
  by (simp_all add: cpu_float_tensor_def cuda_float_tensor_def strided_tensor_def bool_tensor_def)

lemma u_check_function_not_capability:
  "u_check_function lib factory tensor \<noteq> Inl (NotImplementedError msg)"
  by (simp add: u_check_function_cases)

lemma check_cuda_float:
  "u_check_function float_lib u_allreduce_function_factory (cuda_float_tensor i) =
     Inr ''horovod_torch_allreduce_async_torch_cuda_FloatTensor''"
  by (simp add: u_check_function_def u_allreduce_function_factory_def float_lib_def
      cuda_float_tensor_def replace_dot_def)

lemma check_grouped_cuda_float:
  "u_check_function float_lib u_grouped_allreduce_function_factory (cuda_float_tensor i) =
     Inr ''horovod_torch_grouped_allreduce_async_torch_cuda_FloatTensor''"
  by (simp add: u_check_function_def u_grouped_allreduce_function_factory_def float_lib_def
      cuda_float_tensor_def replace_dot_def)

text \<open>
  C2. An allreduce requested with \<^verbatim>\<open>op = Adasum\<close> on a tensor whose device is the CPU, or
  when no GPU is available, single-tensor or grouped with that tensor first: if
  \<^verbatim>\<open>size()\<close> is not a power of two, the call raises \<^verbatim>\<open>NotImplementedError\<close> and leaves the
  state as it was, so that nothing has been submitted to the native library; if it is a
  power of two and the tensor passes \<^verbatim>\<open>_check_function\<close>, the call submitted carries
  divisor 1.
\<close>

theorem adasum_cpu_power_of_two:
  assumes "device_type tensor = ''cpu'' \<or> \<not> gpu_available b"
  shows
    "((\<nexists>k. hvd_size b = 2 ^ k) \<longrightarrow>
        u_allreduce_async b lib tensor out name Adasum pre post s =
          (Inl (NotImplementedError non_power_2_ranks_msg), s) \<and>
        u_grouped_allreduce_async b lib (tensor # ts) outs name Adasum pre post s =
          (Inl (NotImplementedError non_power_2_ranks_msg), s)) \<and>
     ((\<exists>k. hvd_size b = 2 ^ k) \<longrightarrow>
        (\<forall>f. u_check_function lib u_allreduce_function_factory tensor = Inr f \<longrightarrow>
           submitted (snd (u_allreduce_async b lib tensor out name Adasum pre post s)) =
             submitted s @ [AllreduceCall f tensor out 1 (encode_name name) Adasum pre post]) \<and>
        (\<forall>g. u_check_function lib u_grouped_allreduce_function_factory tensor = Inr g \<longrightarrow>
           submitted (snd (u_grouped_allreduce_async b lib (tensor # ts) outs name Adasum pre post s)) =
             submitted s @
             [GroupedAllreduceCall g (tensor # ts) outs 1 (encode_name name) Adasum pre post]))"
proof (intro conjI impI allI)
  assume "\<nexists>k. hvd_size b = 2 ^ k"
  then have pol: "set_divisor b Adasum (device_type tensor) =
      Inl (NotImplementedError non_power_2_ranks_msg)"
    using assms by (simp add: set_divisor_Adasum_cpu num_rank_is_power_2_iff)
  show "u_allreduce_async b lib tensor out name Adasum pre post s =
      (Inl (NotImplementedError non_power_2_ranks_msg), s)"
    by (rule u_allreduce_async_policy_raises [OF pol])
  show "u_grouped_allreduce_async b lib (tensor # ts) outs name Adasum pre post s =
      (Inl (NotImplementedError non_power_2_ranks_msg), s)"
    by (rule u_grouped_allreduce_async_policy_raises [OF pol])
next
  fix f
  assume "\<exists>k. hvd_size b = 2 ^ k"
  then have pol: "set_divisor b Adasum (device_type tensor) = Inr (1, Adasum, [])"
    using assms by (simp add: set_divisor_Adasum_cpu num_rank_is_power_2_iff)
  assume "u_check_function lib u_allreduce_function_factory tensor = Inr f"
  then show "submitted (snd (u_allreduce_async b lib tensor out name Adasum pre post s)) =
      submitted s @ [AllreduceCall f tensor out 1 (encode_name name) Adasum pre post]"
    by (simp add: u_allreduce_async_submits [OF pol] submit_and_register_submitted)
next
  fix g
  assume "\<exists>k. hvd_size b = 2 ^ k"
  then have pol: "set_divisor b Adasum (device_type tensor) = Inr (1, Adasum, [])"
    using assms by (simp add: set_divisor_Adasum_cpu num_rank_is_power_2_iff)
  assume "u_check_function lib u_grouped_allreduce_function_factory tensor = Inr g"
  then show "submitted (snd (u_grouped_allreduce_async b lib (tensor # ts) outs name Adasum pre post s)) =
      submitted s @
      [GroupedAllreduceCall g (tensor # ts) outs 1 (encode_name name) Adasum pre post]"
    by (simp add: u_grouped_allreduce_async_submits [OF pol] submit_and_register_submitted)
qed

theorem adasum_cpu_power_of_two_witness:
  "u_allreduce_async (topology 3 1 False True True True) float_lib (cpu_float_tensor 1)
       (cpu_float_tensor 2) None Adasum 1 1 initial_state =
     (Inl (NotImplementedError non_power_2_ranks_msg), initial_state) \<and>
   u_grouped_allreduce_async (topology 3 1 False True True True) float_lib
       [cpu_float_tensor 1, cpu_float_tensor 3] [cpu_float_tensor 2, cpu_float_tensor 4]
       None Adasum 1 1 initial_state =
     (Inl (NotImplementedError non_power_2_ranks_msg), initial_state) \<and>
   submitted (snd (u_allreduce_async (topology 4 1 False True True False) float_lib
       (cuda_float_tensor 1) (cuda_float_tensor 2) None Adasum 1 1 initial_state)) =
     [AllreduceCall ''horovod_torch_allreduce_async_torch_cuda_FloatTensor''
        (cuda_float_tensor 1) (cuda_float_tensor 2) 1 [] Adasum 1 1] \<and>
   submitted (snd (u_grouped_allreduce_async (topology 4 1 False True True False) float_lib
       [cuda_float_tensor 1, cuda_float_tensor 3] [cuda_float_tensor 2] None Adasum 1 1
       initial_state)) =
     [GroupedAllreduceCall ''horovod_torch_grouped_allreduce_async_torch_cuda_FloatTensor''
        [cuda_float_tensor 1, cuda_float_tensor 3] [cuda_float_tensor 2] 1 [] Adasum 1 1]"
  using adasum_cpu_power_of_two [where tensor = "cpu_float_tensor 1"
      and b = "topology 3 1 False True True True" and lib = float_lib
      and out = "cpu_float_tensor 2" and name = None and pre = 1 and post = 1
      and s = initial_state and ts = "[cpu_float_tensor 3]"
      and outs = "[cpu_float_tensor 2, cpu_float_tensor 4]"]
    adasum_cpu_power_of_two [where tensor = "cuda_float_tensor 1"
      and b = "topology 4 1 False True True False" and lib = float_lib
      and out = "cuda_float_tensor 2" and name = None and pre = 1 and post = 1
      and s = initial_state and ts = "[cuda_float_tensor 3]"
      and outs = "[cuda_float_tensor 2]"]
    not_power_of_two_3 power_of_two_4
  by (simp add: check_cuda_float check_grouped_cuda_float topology_def initial_state_def
      encode_name_def)

text \<open>
  C3. An allreduce requested with \<^verbatim>\<open>op = Adasum\<close> on a tensor that is not on the CPU, with
  a GPU available and NCCL built: on a cluster that is not homogeneous the call raises
  \<^verbatim>\<open>NotImplementedError\<close>; on a homogeneous one where \<^verbatim>\<open>int(size() / local_size())\<close> is
  not a power of two it raises \<^verbatim>\<open>NotImplementedError\<close> as well; both leave the state as it
  was, so the native library is never reached. Otherwise the call submitted carries the
  divisor \<^verbatim>\<open>local_size()\<close> when \<^verbatim>\<open>rocm_built()\<close> holds and 1 when not. The quotient is the
  one the code computes, which is the exact node count on a homogeneous cluster, where
  every node runs \<^verbatim>\<open>local_size()\<close> ranks; \<^verbatim>\<open>local_size()\<close> counts the calling process and
  is not zero.
\<close>

theorem adasum_gpu_nccl_topology:
  assumes "device_type tensor \<noteq> ''cpu''" and "gpu_available b" and "nccl_built b"
  shows
    "(\<not> is_homogeneous b \<longrightarrow>
        u_allreduce_async b lib tensor out name Adasum pre post s =
          (Inl (NotImplementedError heterogeneous_msg), s) \<and>
        u_grouped_allreduce_async b lib (tensor # ts) outs name Adasum pre post s =
          (Inl (NotImplementedError heterogeneous_msg), s)) \<and>
     (is_homogeneous b \<and> local_size b \<noteq> 0 \<and> (\<nexists>k. hvd_size b div local_size b = 2 ^ k) \<longrightarrow>
        u_allreduce_async b lib tensor out name Adasum pre post s =
          (Inl (NotImplementedError non_power_2_nodes_msg), s) \<and>
        u_grouped_allreduce_async b lib (tensor # ts) outs name Adasum pre post s =
          (Inl (NotImplementedError non_power_2_nodes_msg), s)) \<and>
     (is_homogeneous b \<and> local_size b \<noteq> 0 \<and> (\<exists>k. hvd_size b div local_size b = 2 ^ k) \<longrightarrow>
        (\<forall>f. u_check_function lib u_allreduce_function_factory tensor = Inr f \<longrightarrow>
           submitted (snd (u_allreduce_async b lib tensor out name Adasum pre post s)) =
             submitted s @
             [AllreduceCall f tensor out (if rocm_built b then local_size b else 1)
                (encode_name name) Adasum pre post]) \<and>
        (\<forall>g. u_check_function lib u_grouped_allreduce_function_factory tensor = Inr g \<longrightarrow>
           submitted (snd (u_grouped_allreduce_async b lib (tensor # ts) outs name Adasum pre post s)) =
             submitted s @
             [GroupedAllreduceCall g (tensor # ts) outs (if rocm_built b then local_size b else 1)
                (encode_name name) Adasum pre post]))"
proof (intro conjI impI allI)
  assume "\<not> is_homogeneous b"
  then have pol: "set_divisor b Adasum (device_type tensor) =
      Inl (NotImplementedError heterogeneous_msg)"
    using assms by (simp add: set_divisor_def)
  show "u_allreduce_async b lib tensor out name Adasum pre post s =
      (Inl (NotImplementedError heterogeneous_msg), s)"
    by (rule u_allreduce_async_policy_raises [OF pol])
  show "u_grouped_allreduce_async b lib (tensor # ts) outs name Adasum pre post s =
      (Inl (NotImplementedError heterogeneous_msg), s)"
    by (rule u_grouped_allreduce_async_policy_raises [OF pol])
next
  assume "is_homogeneous b \<and> local_size b \<noteq> 0 \<and> (\<nexists>k. hvd_size b div local_size b = 2 ^ k)"
  then have pol: "set_divisor b Adasum (device_type tensor) =
      Inl (NotImplementedError non_power_2_nodes_msg)"
    using assms by (simp add: set_divisor_Adasum_nccl num_rank_is_power_2_iff)
  show "u_allreduce_async b lib tensor out name Adasum pre post s =
      (Inl (NotImplementedError non_power_2_nodes_msg), s)"
    by (rule u_allreduce_async_policy_raises [OF pol])
  show "u_grouped_allreduce_async b lib (tensor # ts) outs name Adasum pre post s =
      (Inl (NotImplementedError non_power_2_nodes_msg), s)"
    by (rule u_grouped_allreduce_async_policy_raises [OF pol])
next
  fix f
  assume "is_homogeneous b \<and> local_size b \<noteq> 0 \<and> (\<exists>k. hvd_size b div local_size b = 2 ^ k)"
  then have pol: "set_divisor b Adasum (device_type tensor) =
      Inr (if rocm_built b then local_size b else 1, Adasum, [])"
    using assms by (simp add: set_divisor_Adasum_nccl num_rank_is_power_2_iff)
  assume "u_check_function lib u_allreduce_function_factory tensor = Inr f"
  then show "submitted (snd (u_allreduce_async b lib tensor out name Adasum pre post s)) =
      submitted s @
      [AllreduceCall f tensor out (if rocm_built b then local_size b else 1)
         (encode_name name) Adasum pre post]"
    by (simp add: u_allreduce_async_submits [OF pol] submit_and_register_submitted)
next
  fix g
  assume "is_homogeneous b \<and> local_size b \<noteq> 0 \<and> (\<exists>k. hvd_size b div local_size b = 2 ^ k)"
  then have pol: "set_divisor b Adasum (device_type tensor) =
      Inr (if rocm_built b then local_size b else 1, Adasum, [])"
    using assms by (simp add: set_divisor_Adasum_nccl num_rank_is_power_2_iff)
  assume "u_check_function lib u_grouped_allreduce_function_factory tensor = Inr g"
  then show "submitted (snd (u_grouped_allreduce_async b lib (tensor # ts) outs name Adasum pre post s)) =
      submitted s @
      [GroupedAllreduceCall g (tensor # ts) outs (if rocm_built b then local_size b else 1)
         (encode_name name) Adasum pre post]"
    by (simp add: u_grouped_allreduce_async_submits [OF pol] submit_and_register_submitted)
qed


theorem adasum_gpu_nccl_topology_witness:
  "u_allreduce_async (topology 8 4 False True False True) float_lib (cuda_float_tensor 1)
       (cuda_float_tensor 2) None Adasum 1 1 initial_state =
     (Inl (NotImplementedError heterogeneous_msg), initial_state) \<and>
   u_grouped_allreduce_async (topology 6 2 False True True True) float_lib
       [cuda_float_tensor 1, cuda_float_tensor 3] [cuda_float_tensor 2, cuda_float_tensor 4]
       None Adasum 1 1 initial_state =
     (Inl (NotImplementedError non_power_2_nodes_msg), initial_state) \<and>
   submitted (snd (u_allreduce_async (topology 8 2 True True True True) float_lib
       (cuda_float_tensor 1) (cuda_float_tensor 2) None Adasum 1 1 initial_state)) =
     [AllreduceCall ''horovod_torch_allreduce_async_torch_cuda_FloatTensor''
        (cuda_float_tensor 1) (cuda_float_tensor 2) 2 [] Adasum 1 1]"
  using adasum_gpu_nccl_topology [where tensor = "cuda_float_tensor 1"
      and b = "topology 8 4 False True False True" and lib = float_lib
      and out = "cuda_float_tensor 2" and name = None and pre = 1 and post = 1
      and s = initial_state]
    adasum_gpu_nccl_topology [where tensor = "cuda_float_tensor 1"
      and b = "topology 6 2 False True True True" and lib = float_lib
      and ts = "[cuda_float_tensor 3]" and outs = "[cuda_float_tensor 2, cuda_float_tensor 4]"
      and name = None and pre = 1 and post = 1 and s = initial_state]
    adasum_gpu_nccl_topology [where tensor = "cuda_float_tensor 1"
      and b = "topology 8 2 True True True True" and lib = float_lib
      and out = "cuda_float_tensor 2" and name = None and pre = 1 and post = 1
      and s = initial_state]
    not_power_of_two_3 power_of_two_4
  by (simp add: check_cuda_float topology_def initial_state_def encode_name_def)

text \<open>
  C9. An allreduce requested with \<^verbatim>\<open>op = Adasum\<close> on a tensor that is not on the CPU, with
  a GPU available and NCCL not built, single-tensor or grouped: the call emits the warning,
  never raises \<^verbatim>\<open>NotImplementedError\<close> whatever \<^verbatim>\<open>size()\<close>, \<^verbatim>\<open>local_size()\<close> and
  \<^verbatim>\<open>is_homogeneous()\<close> are, and the call it submits once the tensor passes
  \<^verbatim>\<open>_check_function\<close> carries divisor 1 and op \<^verbatim>\<open>Adasum\<close>.
\<close>

theorem adasum_gpu_without_nccl:
  assumes "device_type tensor \<noteq> ''cpu''" and "gpu_available b" and "\<not> nccl_built b"
  shows
    "warnings (snd (u_allreduce_async b lib tensor out name Adasum pre post s)) =
       warnings s @ [adasum_mpi_warning] \<and>
     (\<forall>msg. fst (u_allreduce_async b lib tensor out name Adasum pre post s) \<noteq>
        Inl (NotImplementedError msg)) \<and>
     (\<forall>f. u_check_function lib u_allreduce_function_factory tensor = Inr f \<longrightarrow>
        submitted (snd (u_allreduce_async b lib tensor out name Adasum pre post s)) =
          submitted s @ [AllreduceCall f tensor out 1 (encode_name name) Adasum pre post]) \<and>
     warnings (snd (u_grouped_allreduce_async b lib (tensor # ts) outs name Adasum pre post s)) =
       warnings s @ [adasum_mpi_warning] \<and>
     (\<forall>msg. fst (u_grouped_allreduce_async b lib (tensor # ts) outs name Adasum pre post s) \<noteq>
        Inl (NotImplementedError msg)) \<and>
     (\<forall>g. u_check_function lib u_grouped_allreduce_function_factory tensor = Inr g \<longrightarrow>
        submitted (snd (u_grouped_allreduce_async b lib (tensor # ts) outs name Adasum pre post s)) =
          submitted s @
          [GroupedAllreduceCall g (tensor # ts) outs 1 (encode_name name) Adasum pre post])"
proof -
  have pol: "set_divisor b Adasum (device_type tensor) = Inr (1, Adasum, [adasum_mpi_warning])"
    using assms by (rule set_divisor_Adasum_no_nccl)
  have single_warns: "warnings (snd (u_allreduce_async b lib tensor out name Adasum pre post s)) =
      warnings s @ [adasum_mpi_warning]"
  proof (cases "u_check_function lib u_allreduce_function_factory tensor")
    case (Inl e)
    show ?thesis
      by (simp add: u_allreduce_async_check_raises [OF pol Inl])
  next
    case (Inr f)
    show ?thesis
      by (simp add: u_allreduce_async_submits [OF pol Inr] submit_and_register_warnings)
  qed
  have single_no_capability:
    "fst (u_allreduce_async b lib tensor out name Adasum pre post s) \<noteq>
       Inl (NotImplementedError msg)" for msg
  proof (cases "u_check_function lib u_allreduce_function_factory tensor")
    case (Inl e)
    with u_check_function_not_capability [of lib u_allreduce_function_factory tensor msg]
    show ?thesis
      by (simp add: u_allreduce_async_check_raises [OF pol Inl])
  next
    case (Inr f)
    show ?thesis
      by (simp add: u_allreduce_async_submits [OF pol Inr] submit_and_register_not_raised)
  qed
  have single_submits:
    "submitted (snd (u_allreduce_async b lib tensor out name Adasum pre post s)) =
       submitted s @ [AllreduceCall f tensor out 1 (encode_name name) Adasum pre post]"
    if "u_check_function lib u_allreduce_function_factory tensor = Inr f" for f
    by (simp add: u_allreduce_async_submits [OF pol that] submit_and_register_submitted)
  have grouped_warns:
    "warnings (snd (u_grouped_allreduce_async b lib (tensor # ts) outs name Adasum pre post s)) =
      warnings s @ [adasum_mpi_warning]"
  proof (cases "u_check_function lib u_grouped_allreduce_function_factory tensor")
    case (Inl e)
    show ?thesis
      by (simp add: u_grouped_allreduce_async_check_raises [OF pol Inl])
  next
    case (Inr g)
    show ?thesis
      by (simp add: u_grouped_allreduce_async_submits [OF pol Inr] submit_and_register_warnings)
  qed
  have grouped_no_capability:
    "fst (u_grouped_allreduce_async b lib (tensor # ts) outs name Adasum pre post s) \<noteq>
       Inl (NotImplementedError msg)" for msg
  proof (cases "u_check_function lib u_grouped_allreduce_function_factory tensor")
    case (Inl e)
    with u_check_function_not_capability [of lib u_grouped_allreduce_function_factory tensor msg]
    show ?thesis
      by (simp add: u_grouped_allreduce_async_check_raises [OF pol Inl])
  next
    case (Inr g)
    show ?thesis
      by (simp add: u_grouped_allreduce_async_submits [OF pol Inr] submit_and_register_not_raised)
  qed
  have grouped_submits:
    "submitted (snd (u_grouped_allreduce_async b lib (tensor # ts) outs name Adasum pre post s)) =
       submitted s @
       [GroupedAllreduceCall g (tensor # ts) outs 1 (encode_name name) Adasum pre post]"
    if "u_check_function lib u_grouped_allreduce_function_factory tensor = Inr g" for g
    by (simp add: u_grouped_allreduce_async_submits [OF pol that] submit_and_register_submitted)
  from single_warns single_no_capability single_submits
    grouped_warns grouped_no_capability grouped_submits
  show ?thesis
    by blast
qed

theorem adasum_gpu_without_nccl_witness:
  "warnings (snd (u_allreduce_async (topology 6 4 False False False True) float_lib
       (cuda_float_tensor 1) (cuda_float_tensor 2) None Adasum 1 1 initial_state)) =
     [adasum_mpi_warning] \<and>
   submitted (snd (u_allreduce_async (topology 6 4 False False False True) float_lib
       (cuda_float_tensor 1) (cuda_float_tensor 2) None Adasum 1 1 initial_state)) =
     [AllreduceCall ''horovod_torch_allreduce_async_torch_cuda_FloatTensor''
        (cuda_float_tensor 1) (cuda_float_tensor 2) 1 [] Adasum 1 1] \<and>
   submitted (snd (u_grouped_allreduce_async (topology 6 4 False False False True) float_lib
       [cuda_float_tensor 1, cuda_float_tensor 3] [cuda_float_tensor 2] None Adasum 1 1
       initial_state)) =
     [GroupedAllreduceCall ''horovod_torch_grouped_allreduce_async_torch_cuda_FloatTensor''
        [cuda_float_tensor 1, cuda_float_tensor 3] [cuda_float_tensor 2] 1 [] Adasum 1 1]"
  using adasum_gpu_without_nccl [where tensor = "cuda_float_tensor 1"
      and b = "topology 6 4 False False False True" and lib = float_lib
      and out = "cuda_float_tensor 2" and name = None and pre = 1 and post = 1
      and s = initial_state and ts = "[cuda_float_tensor 3]" and outs = "[cuda_float_tensor 2]"]
  by (simp add: check_cuda_float check_grouped_cuda_float topology_def initial_state_def
      encode_name_def)

section \<open>Claims about validation and the handle table\<close>

lemma set_divisor_not_ValueError: "set_divisor b op dev \<noteq> Inl (ValueError msg)"
  by (simp add: set_divisor_def int_truediv_def)

lemma u_allgather_async_check_raises:
  "u_check_function lib u_allgather_function_factory tensor = Inl e \<Longrightarrow>
   u_allgather_async lib tensor output name s = (Inl e, s)"
  by (simp add: u_allgather_async_def)

lemma u_allgather_async_submits:
  "u_check_function lib u_allgather_function_factory tensor = Inr f \<Longrightarrow>
   u_allgather_async lib tensor output name s =
     submit_and_register lib (AllgatherCall f tensor output (encode_name name))
       (Tuple2 (Tensor tensor) (Tensor output)) s"
  by (simp add: u_allgather_async_def)

lemma u_broadcast_async_check_raises:
  "u_check_function lib u_broadcast_function_factory tensor = Inl e \<Longrightarrow>
   u_broadcast_async lib tensor output root_rank name s = (Inl e, s)"
  by (simp add: u_broadcast_async_def)

lemma u_broadcast_async_submits:
  "u_check_function lib u_broadcast_function_factory tensor = Inr f \<Longrightarrow>
   u_broadcast_async lib tensor output root_rank name s =
     submit_and_register lib (BroadcastCall f tensor output root_rank (encode_name name))
       (Tuple2 (Tensor tensor) (Tensor output)) s"
  by (simp add: u_broadcast_async_def)

lemma u_alltoall_async_conversion_raises:
  "normalized_splits splits = Inl e \<Longrightarrow>
   u_alltoall_async lib tensor splits output name s = (Inl e, s)"
  by (simp add: u_alltoall_async_def)

lemma u_alltoall_async_check_raises:
  "normalized_splits splits = Inr sp \<Longrightarrow>
   u_check_function lib u_alltoall_function_factory tensor = Inl e \<Longrightarrow>
   u_alltoall_async lib tensor splits output name s = (Inl e, s)"
  by (simp add: u_alltoall_async_def)

lemma u_alltoall_async_submits:
  "normalized_splits splits = Inr sp \<Longrightarrow>
   u_check_function lib u_alltoall_function_factory tensor = Inr f \<Longrightarrow>
   u_alltoall_async lib tensor splits output name s =
     submit_and_register lib (AlltoallCall f tensor sp output (encode_name name))
       (Tuple3 (Tensor tensor) (Splits sp) (Tensor output)) s"
  by (simp add: u_alltoall_async_def)

lemma u_alltoall_async_validation_fails:
  assumes "u_check_function lib u_alltoall_function_factory tensor = Inl e"
  shows "u_alltoall_async lib tensor splits output name s =
     (case normalized_splits splits of
        Inl e' \<Rightarrow> (Inl e', s)
      | Inr sp \<Rightarrow> (Inl e, s))"
  using assms by (simp add: u_alltoall_async_def split: sum.split)

lemma splits_beyond_int32:
  "normalized_splits (SplitsList [2147483648]) =
     Inl (RuntimeError ''value cannot be converted to type int32 without overflow'')"
  by (simp add: int32_range_def)

lemma splits_within_int32:
  "normalized_splits (SplitsList [1, 1]) = Inr (NewInt32CpuTensor [1, 1])"
  by (simp add: int32_range_def)

lemma u_allreduce_async_validation_fails:
  assumes "u_check_function lib u_allreduce_function_factory tensor = Inl e"
  shows "u_allreduce_async b lib tensor output name op pre post s =
     (case set_divisor b op (device_type tensor) of
        Inl e' \<Rightarrow> (Inl e', s)
      | Inr (divisor, op', ws) \<Rightarrow> (Inl e, s\<lparr>warnings := warnings s @ ws\<rparr>))"
  using assms by (simp add: u_allreduce_async_def Let_def split: sum.split prod.split)

lemma u_grouped_allreduce_async_validation_fails:
  assumes "u_check_function lib u_grouped_allreduce_function_factory t0 = Inl e"
  shows "u_grouped_allreduce_async b lib (t0 # rest) outputs name op pre post s =
     (case set_divisor b op (device_type t0) of
        Inl e' \<Rightarrow> (Inl e', s)
      | Inr (divisor, op', ws) \<Rightarrow> (Inl e, s\<lparr>warnings := warnings s @ ws\<rparr>))"
  using assms by (simp add: u_grouped_allreduce_async_def Let_def split: sum.split prod.split)


text \<open>
  C4, as amended. \<^verbatim>\<open>_check_function\<close> raises the unsupported-type \<^verbatim>\<open>ValueError\<close> for a
  tensor whose entry point the native library lacks, and the layout \<^verbatim>\<open>ValueError\<close> for a
  supported tensor that is not contiguous. Each dispatch function applies it to one tensor
  (the grouped one to the first tensor of its list). When it raises, nothing is submitted and
  the handle table is unchanged; the call raises that error, except where an earlier step
  raises first: the op policy of an allreduce, or the conversion of the split sizes of an
  all-to-all. The later tensors of a grouped list are not validated: once the first tensor
  passes and the policy raises nothing, the list is submitted whatever they are.
\<close>

theorem validation_precedes_submission:
  "(\<not> hasattr lib (factory tensor) \<longrightarrow>
      u_check_function lib factory tensor =
        Inl (ValueError (''Tensor type '' @ type_str tensor @ '' is not supported.''))) \<and>
   (hasattr lib (factory tensor) \<and> \<not> is_contiguous tensor \<longrightarrow>
      u_check_function lib factory tensor =
        Inl (ValueError ''Tensor is required to be contiguous.'')) \<and>
   (\<forall>e. u_check_function lib u_allreduce_function_factory tensor = Inl e \<longrightarrow>
      fst (u_allreduce_async b lib tensor out name op pre post s) =
        (case set_divisor b op (device_type tensor) of Inl e' \<Rightarrow> Inl e' | Inr p \<Rightarrow> Inl e) \<and>
      submitted (snd (u_allreduce_async b lib tensor out name op pre post s)) = submitted s \<and>
      u_handle_map (snd (u_allreduce_async b lib tensor out name op pre post s)) =
        u_handle_map s) \<and>
   (\<forall>e. u_check_function lib u_grouped_allreduce_function_factory tensor = Inl e \<longrightarrow>
      fst (u_grouped_allreduce_async b lib (tensor # ts) outs name op pre post s) =
        (case set_divisor b op (device_type tensor) of Inl e' \<Rightarrow> Inl e' | Inr p \<Rightarrow> Inl e) \<and>
      submitted (snd (u_grouped_allreduce_async b lib (tensor # ts) outs name op pre post s)) =
        submitted s \<and>
      u_handle_map (snd (u_grouped_allreduce_async b lib (tensor # ts) outs name op pre post s)) =
        u_handle_map s) \<and>
   (\<forall>f d op' ws. u_check_function lib u_grouped_allreduce_function_factory tensor = Inr f \<and>
      set_divisor b op (device_type tensor) = Inr (d, op', ws) \<longrightarrow>
      submitted (snd (u_grouped_allreduce_async b lib (tensor # ts) outs name op pre post s)) =
        submitted s @
        [GroupedAllreduceCall f (tensor # ts) outs d (encode_name name) op' pre post]) \<and>
   (\<forall>e. u_check_function lib u_allgather_function_factory tensor = Inl e \<longrightarrow>
      u_allgather_async lib tensor out name s = (Inl e, s)) \<and>
   (\<forall>e. u_check_function lib u_broadcast_function_factory tensor = Inl e \<longrightarrow>
      u_broadcast_async lib tensor out root_rank name s = (Inl e, s)) \<and>
   (\<forall>e. u_check_function lib u_alltoall_function_factory tensor = Inl e \<longrightarrow>
      u_alltoall_async lib tensor splits out name s =
        (case normalized_splits splits of Inl e' \<Rightarrow> (Inl e', s) | Inr sp \<Rightarrow> (Inl e, s)))"
proof -
  have unsupported: "\<not> hasattr lib (factory tensor) \<longrightarrow>
      u_check_function lib factory tensor =
        Inl (ValueError (''Tensor type '' @ type_str tensor @ '' is not supported.''))"
    by (simp add: u_check_function_cases)
  have layout: "hasattr lib (factory tensor) \<and> \<not> is_contiguous tensor \<longrightarrow>
      u_check_function lib factory tensor =
        Inl (ValueError ''Tensor is required to be contiguous.'')"
    by (simp add: u_check_function_cases)
  have single: "fst (u_allreduce_async b lib tensor out name op pre post s) =
        (case set_divisor b op (device_type tensor) of Inl e' \<Rightarrow> Inl e' | Inr p \<Rightarrow> Inl e) \<and>
      submitted (snd (u_allreduce_async b lib tensor out name op pre post s)) = submitted s \<and>
      u_handle_map (snd (u_allreduce_async b lib tensor out name op pre post s)) =
        u_handle_map s"
    if "u_check_function lib u_allreduce_function_factory tensor = Inl e" for e
    by (simp add: u_allreduce_async_validation_fails [OF that] split: sum.split prod.split)
  have grouped: "fst (u_grouped_allreduce_async b lib (tensor # ts) outs name op pre post s) =
        (case set_divisor b op (device_type tensor) of Inl e' \<Rightarrow> Inl e' | Inr p \<Rightarrow> Inl e) \<and>
      submitted (snd (u_grouped_allreduce_async b lib (tensor # ts) outs name op pre post s)) =
        submitted s \<and>
      u_handle_map (snd (u_grouped_allreduce_async b lib (tensor # ts) outs name op pre post s)) =
        u_handle_map s"
    if "u_check_function lib u_grouped_allreduce_function_factory tensor = Inl e" for e
    by (simp add: u_grouped_allreduce_async_validation_fails [OF that]
        split: sum.split prod.split)
  have later: "submitted (snd (u_grouped_allreduce_async b lib (tensor # ts) outs name op pre post s)) =
        submitted s @
        [GroupedAllreduceCall f (tensor # ts) outs d (encode_name name) op' pre post]"
    if "u_check_function lib u_grouped_allreduce_function_factory tensor = Inr f \<and>
      set_divisor b op (device_type tensor) = Inr (d, op', ws)" for f d op' ws
    using that
    by (simp add: u_grouped_allreduce_async_submits submit_and_register_submitted)
  from unsupported layout single grouped later
    u_allgather_async_check_raises [of lib tensor _ out name s]
    u_broadcast_async_check_raises [of lib tensor _ out root_rank name s]
    u_alltoall_async_validation_fails [of lib tensor _ splits out name s]
  show ?thesis
    by blast
qed

lemma check_strided:
  "u_check_function float_lib u_allreduce_function_factory (strided_tensor i) =
     Inl (ValueError ''Tensor is required to be contiguous.'')"
  "u_check_function float_lib u_grouped_allreduce_function_factory (strided_tensor i) =
     Inl (ValueError ''Tensor is required to be contiguous.'')"
  "u_check_function float_lib u_allgather_function_factory (strided_tensor i) =
     Inl (ValueError ''Tensor is required to be contiguous.'')"
  "u_check_function float_lib u_broadcast_function_factory (strided_tensor i) =
     Inl (ValueError ''Tensor is required to be contiguous.'')"
  "u_check_function float_lib u_alltoall_function_factory (strided_tensor i) =
     Inl (ValueError ''Tensor is required to be contiguous.'')"
  by (simp_all add: u_check_function_def u_allreduce_function_factory_def
      u_grouped_allreduce_function_factory_def u_allgather_function_factory_def
      u_broadcast_function_factory_def u_alltoall_function_factory_def float_lib_def
      strided_tensor_def replace_dot_def)

lemma hasattr_bool:
  "\<not> hasattr float_lib (u_allreduce_function_factory (bool_tensor i))"
  by (simp add: u_allreduce_function_factory_def float_lib_def bool_tensor_def replace_dot_def)

lemma type_str_bool: "type_str (bool_tensor i) = ''torch.BoolTensor''"
  by (simp add: bool_tensor_def)

theorem validation_precedes_submission_witness:
  "u_check_function float_lib u_allreduce_function_factory (bool_tensor 1) =
     Inl (ValueError ''Tensor type torch.BoolTensor is not supported.'') \<and>
   fst (u_allreduce_async (topology 4 2 False True True True) float_lib (strided_tensor 1)
        (cpu_float_tensor 2) None Sum 1 1 pending_state) =
     Inl (ValueError ''Tensor is required to be contiguous.'') \<and>
   submitted (snd (u_allreduce_async (topology 4 2 False True True True) float_lib
        (strided_tensor 1) (cpu_float_tensor 2) None Sum 1 1 pending_state)) = [] \<and>
   u_handle_map (snd (u_grouped_allreduce_async (topology 4 2 False True True True) float_lib
        [strided_tensor 1, cpu_float_tensor 3] [cpu_float_tensor 2, cpu_float_tensor 4] None Sum
        1 1 pending_state)) = u_handle_map pending_state \<and>
   submitted (snd (u_grouped_allreduce_async (topology 4 2 False True True True) float_lib
        [cpu_float_tensor 1, bool_tensor 3] [cpu_float_tensor 2, cpu_float_tensor 4] None Sum
        1 1 pending_state)) =
     [GroupedAllreduceCall ''horovod_torch_grouped_allreduce_async_torch_FloatTensor''
        [cpu_float_tensor 1, bool_tensor 3] [cpu_float_tensor 2, cpu_float_tensor 4] 1 [] Sum
        1 1] \<and>
   u_allgather_async float_lib (strided_tensor 1) (cpu_float_tensor 2) None pending_state =
     (Inl (ValueError ''Tensor is required to be contiguous.''), pending_state) \<and>
   u_broadcast_async float_lib (strided_tensor 1) (cpu_float_tensor 2) 0 None pending_state =
     (Inl (ValueError ''Tensor is required to be contiguous.''), pending_state) \<and>
   u_alltoall_async float_lib (strided_tensor 1) SplitsNone (cpu_float_tensor 2) None
       pending_state =
     (Inl (ValueError ''Tensor is required to be contiguous.''), pending_state) \<and>
   u_alltoall_async float_lib (strided_tensor 1) (SplitsList [2147483648]) (cpu_float_tensor 2)
       None pending_state =
     (Inl (RuntimeError ''value cannot be converted to type int32 without overflow''),
      pending_state)"
proof -
  note unsupported = validation_precedes_submission [where lib = float_lib
      and factory = u_allreduce_function_factory and tensor = "bool_tensor 1"
      and b = "topology 4 2 False True True True" and out = "cpu_float_tensor 2"
      and name = None and op = Sum and pre = 1 and post = 1 and s = pending_state
      and root_rank = 0 and ts = "[cpu_float_tensor 3]"
      and outs = "[cpu_float_tensor 2, cpu_float_tensor 4]" and splits = SplitsNone]
  note strided = validation_precedes_submission [where lib = float_lib
      and factory = u_allreduce_function_factory and tensor = "strided_tensor 1"
      and b = "topology 4 2 False True True True" and out = "cpu_float_tensor 2"
      and name = None and op = Sum and pre = 1 and post = 1 and s = pending_state
      and root_rank = 0 and ts = "[cpu_float_tensor 3]"
      and outs = "[cpu_float_tensor 2, cpu_float_tensor 4]" and splits = SplitsNone]
  note overflow = validation_precedes_submission [where lib = float_lib
      and factory = u_allreduce_function_factory and tensor = "strided_tensor 1"
      and b = "topology 4 2 False True True True" and out = "cpu_float_tensor 2"
      and name = None and op = Sum and pre = 1 and post = 1 and s = pending_state
      and root_rank = 0 and ts = "[cpu_float_tensor 3]"
      and outs = "[cpu_float_tensor 2, cpu_float_tensor 4]"
      and splits = "SplitsList [2147483648]"]
  note later = validation_precedes_submission [where lib = float_lib
      and factory = u_allreduce_function_factory and tensor = "cpu_float_tensor 1"
      and b = "topology 4 2 False True True True" and out = "cpu_float_tensor 2"
      and name = None and op = Sum and pre = 1 and post = 1 and s = pending_state
      and root_rank = 0 and ts = "[bool_tensor 3]"
      and outs = "[cpu_float_tensor 2, cpu_float_tensor 4]" and splits = SplitsNone]
  have first: "u_check_function float_lib u_allreduce_function_factory (bool_tensor 1) =
      Inl (ValueError ''Tensor type torch.BoolTensor is not supported.'')"
    using unsupported by (simp add: hasattr_bool type_str_bool)
  have single: "fst (u_allreduce_async (topology 4 2 False True True True) float_lib
        (strided_tensor 1) (cpu_float_tensor 2) None Sum 1 1 pending_state) =
      Inl (ValueError ''Tensor is required to be contiguous.'') \<and>
    submitted (snd (u_allreduce_async (topology 4 2 False True True True) float_lib
        (strided_tensor 1) (cpu_float_tensor 2) None Sum 1 1 pending_state)) = []"
    using strided by (simp add: check_strided set_divisor_Sum pending_state_def)
  have grouped: "u_handle_map (snd (u_grouped_allreduce_async
        (topology 4 2 False True True True) float_lib
        [strided_tensor 1, cpu_float_tensor 3] [cpu_float_tensor 2, cpu_float_tensor 4] None Sum
        1 1 pending_state)) = u_handle_map pending_state"
    using strided by (simp add: check_strided)
  have unvalidated: "submitted (snd (u_grouped_allreduce_async
        (topology 4 2 False True True True) float_lib
        [cpu_float_tensor 1, bool_tensor 3] [cpu_float_tensor 2, cpu_float_tensor 4] None Sum
        1 1 pending_state)) =
      [GroupedAllreduceCall ''horovod_torch_grouped_allreduce_async_torch_FloatTensor''
        [cpu_float_tensor 1, bool_tensor 3] [cpu_float_tensor 2, cpu_float_tensor 4] 1 [] Sum
        1 1]"
    using later
    by (simp add: check_grouped_cpu_float set_divisor_Sum pending_state_def encode_name_def)
  have others: "u_allgather_async float_lib (strided_tensor 1) (cpu_float_tensor 2) None
        pending_state =
      (Inl (ValueError ''Tensor is required to be contiguous.''), pending_state) \<and>
    u_broadcast_async float_lib (strided_tensor 1) (cpu_float_tensor 2) 0 None pending_state =
      (Inl (ValueError ''Tensor is required to be contiguous.''), pending_state) \<and>
    u_alltoall_async float_lib (strided_tensor 1) SplitsNone (cpu_float_tensor 2) None
        pending_state =
      (Inl (ValueError ''Tensor is required to be contiguous.''), pending_state)"
    using strided by (simp add: check_strided)
  have conversion: "u_alltoall_async float_lib (strided_tensor 1) (SplitsList [2147483648])
        (cpu_float_tensor 2) None pending_state =
      (Inl (RuntimeError ''value cannot be converted to type int32 without overflow''),
       pending_state)"
    using overflow by (simp add: check_strided int32_range_def)
  from first single grouped unvalidated others conversion show ?thesis
    by blast
qed

text \<open>
  C4 as stated fails: it speaks of every tensor submitted, but a grouped allreduce whose
  second tensor is not contiguous passes validation, is submitted whole and returns a
  handle.
\<close>

theorem later_tensor_is_not_validated:
  "\<not> is_contiguous (strided_tensor 3) \<and>
   fst (u_grouped_allreduce_async (topology 4 2 False True True True) float_lib
        [cpu_float_tensor 1, strided_tensor 3] [cpu_float_tensor 2, cpu_float_tensor 4]
        None Sum 1 1 initial_state) = Inr 1 \<and>
   submitted (snd (u_grouped_allreduce_async (topology 4 2 False True True True) float_lib
        [cpu_float_tensor 1, strided_tensor 3] [cpu_float_tensor 2, cpu_float_tensor 4]
        None Sum 1 1 initial_state)) =
     [GroupedAllreduceCall ''horovod_torch_grouped_allreduce_async_torch_FloatTensor''
        [cpu_float_tensor 1, strided_tensor 3] [cpu_float_tensor 2, cpu_float_tensor 4]
        1 [] Sum 1 1]"
  unfolding u_grouped_allreduce_async_submits [OF set_divisor_Sum check_grouped_cpu_float]
  by (simp add: submit_and_register_def float_lib_def initial_state_def strided_tensor_def
      encode_name_def Let_def)

lemma set_divisor_not_layout_or_type:
  "fst (case set_divisor b op dev of
          Inl e \<Rightarrow> (Inl e, s)
        | Inr (divisor, op', ws) \<Rightarrow> submit_and_register lib (c divisor op') en (s' ws)) \<noteq>
     Inl (ValueError msg)"
  using set_divisor_not_ValueError [of b op dev msg]
  by (auto simp add: submit_and_register_not_raised split: sum.split prod.split)

text \<open>
  C10. In a grouped allreduce on a non-empty list whose first tensor has an entry point in
  the native library and is contiguous, nothing of the later tensors is inspected: the
  policy reads the device of the first tensor only, no \<^verbatim>\<open>ValueError\<close> is raised whatever the
  later tensors are, and unless the policy raises, the whole list is submitted.
\<close>

theorem grouped_validates_first_tensor_only:
  assumes "hasattr lib (u_grouped_allreduce_function_factory tensor)"
    and "is_contiguous tensor"
  shows
    "u_grouped_allreduce_async b lib (tensor # ts) outs name op pre post s =
       (case set_divisor b op (device_type tensor) of
          Inl e \<Rightarrow> (Inl e, s)
        | Inr (divisor, op', ws) \<Rightarrow>
            submit_and_register lib
              (GroupedAllreduceCall (u_grouped_allreduce_function_factory tensor) (tensor # ts)
                 outs divisor (encode_name name) op' pre post)
              (Tuple2 (Tensors (tensor # ts)) (Tensors outs))
              (s\<lparr>warnings := warnings s @ ws\<rparr>)) \<and>
     (\<forall>msg. fst (u_grouped_allreduce_async b lib (tensor # ts) outs name op pre post s) \<noteq>
        Inl (ValueError msg))"
proof -
  have check: "u_check_function lib u_grouped_allreduce_function_factory tensor =
      Inr (u_grouped_allreduce_function_factory tensor)"
    using assms by (simp add: u_check_function_cases)
  have run: "u_grouped_allreduce_async b lib (tensor # ts) outs name op pre post s =
       (case set_divisor b op (device_type tensor) of
          Inl e \<Rightarrow> (Inl e, s)
        | Inr (divisor, op', ws) \<Rightarrow>
            submit_and_register lib
              (GroupedAllreduceCall (u_grouped_allreduce_function_factory tensor) (tensor # ts)
                 outs divisor (encode_name name) op' pre post)
              (Tuple2 (Tensors (tensor # ts)) (Tensors outs))
              (s\<lparr>warnings := warnings s @ ws\<rparr>))"
    by (simp add: u_grouped_allreduce_async_def check Let_def split: sum.split prod.split)
  have "fst (u_grouped_allreduce_async b lib (tensor # ts) outs name op pre post s) \<noteq>
      Inl (ValueError msg)" for msg
    unfolding run by (rule set_divisor_not_layout_or_type)
  with run show ?thesis
    by blast
qed

theorem grouped_validates_first_tensor_only_witness:
  "u_grouped_allreduce_async (topology 4 2 False True True True) float_lib
       [cpu_float_tensor 1, strided_tensor 3, bool_tensor 5]
       [cpu_float_tensor 1, strided_tensor 3, bool_tensor 5] (Some ''g'') Sum 1 1
       initial_state =
     (Inr 1,
      \<lparr>u_handle_map =
         [1 \<mapsto> Tuple2 (Tensors [cpu_float_tensor 1, strided_tensor 3, bool_tensor 5])
                 (Tensors [cpu_float_tensor 1, strided_tensor 3, bool_tensor 5])],
       submitted =
         [GroupedAllreduceCall ''horovod_torch_grouped_allreduce_async_torch_FloatTensor''
            [cpu_float_tensor 1, strided_tensor 3, bool_tensor 5]
            [cpu_float_tensor 1, strided_tensor 3, bool_tensor 5] 1 ''g'' Sum 1 1],
       warnings = []\<rparr>) \<and>
   \<not> is_contiguous (strided_tensor 3) \<and>
   \<not> hasattr float_lib (u_grouped_allreduce_function_factory (bool_tensor 5))"
  using grouped_validates_first_tensor_only [where lib = float_lib
      and tensor = "cpu_float_tensor 1" and b = "topology 4 2 False True True True"
      and ts = "[strided_tensor 3, bool_tensor 5]"
      and outs = "[cpu_float_tensor 1, strided_tensor 3, bool_tensor 5]" and name = "Some ''g''"
      and op = Sum and pre = 1 and post = 1 and s = initial_state]
  by (simp add: set_divisor_Sum submit_and_register_def Let_def encode_name_def
      u_grouped_allreduce_function_factory_def float_lib_def cpu_float_tensor_def
      strided_tensor_def bool_tensor_def replace_dot_def initial_state_def)

lemma check_repeating_lib:
  "u_check_function repeating_lib factory tensor = u_check_function float_lib factory tensor"
  by (simp add: u_check_function_def repeating_lib_def)

lemma check_allgather_cpu_float:
  "u_check_function float_lib u_allgather_function_factory (cpu_float_tensor i) =
     Inr ''horovod_torch_allgather_async_torch_FloatTensor''"
  by (simp add: u_check_function_def u_allgather_function_factory_def float_lib_def
      cpu_float_tensor_def replace_dot_def)

lemma call_async_repeating_lib: "call_async repeating_lib before c = Inr 7"
  by (simp add: repeating_lib_def)

lemma submit_and_register_registers:
  assumes "call_async lib (submitted s) c = Inr h"
  shows "fst (submit_and_register lib c e s) = Inr h"
    and "u_handle_map (snd (submit_and_register lib c e s)) = (u_handle_map s)(h \<mapsto> e)"
  by (simp_all add: submit_and_register_handle [OF assms])

text \<open>
  C8, as amended. Registration is the assignment \<^verbatim>\<open>_handle_map[handle] = ...\<close> and cannot
  fail: whenever a dispatch function reaches the native library and the library answers the
  submission with a handle, the function returns that handle and the table maps it to the
  operands of this call, whether or not the handle already had an entry. Each of the five
  functions reaches the library once its earlier steps (the op policy, the conversion of the
  split sizes, the validation) have raised nothing.
\<close>

theorem registration_replaces_entry:
  "(\<forall>f h. set_divisor b op (device_type tensor) = Inr (d, op', ws) \<and>
      u_check_function lib u_allreduce_function_factory tensor = Inr f \<and>
      call_async lib (submitted s)
        (AllreduceCall f tensor out d (encode_name name) op' pre post) = Inr h \<longrightarrow>
      fst (u_allreduce_async b lib tensor out name op pre post s) = Inr h \<and>
      u_handle_map (snd (u_allreduce_async b lib tensor out name op pre post s)) =
        (u_handle_map s)(h \<mapsto> Tuple2 (Tensor tensor) (Tensor out))) \<and>
   (\<forall>f h. set_divisor b op (device_type tensor) = Inr (d, op', ws) \<and>
      u_check_function lib u_grouped_allreduce_function_factory tensor = Inr f \<and>
      call_async lib (submitted s)
        (GroupedAllreduceCall f (tensor # ts) outs d (encode_name name) op' pre post) = Inr h \<longrightarrow>
      fst (u_grouped_allreduce_async b lib (tensor # ts) outs name op pre post s) = Inr h \<and>
      u_handle_map (snd (u_grouped_allreduce_async b lib (tensor # ts) outs name op pre post s)) =
        (u_handle_map s)(h \<mapsto> Tuple2 (Tensors (tensor # ts)) (Tensors outs))) \<and>
   (\<forall>f h. u_check_function lib u_allgather_function_factory tensor = Inr f \<and>
      call_async lib (submitted s) (AllgatherCall f tensor out (encode_name name)) = Inr h \<longrightarrow>
      fst (u_allgather_async lib tensor out name s) = Inr h \<and>
      u_handle_map (snd (u_allgather_async lib tensor out name s)) =
        (u_handle_map s)(h \<mapsto> Tuple2 (Tensor tensor) (Tensor out))) \<and>
   (\<forall>f h. u_check_function lib u_broadcast_function_factory tensor = Inr f \<and>
      call_async lib (submitted s)
        (BroadcastCall f tensor out root_rank (encode_name name)) = Inr h \<longrightarrow>
      fst (u_broadcast_async lib tensor out root_rank name s) = Inr h \<and>
      u_handle_map (snd (u_broadcast_async lib tensor out root_rank name s)) =
        (u_handle_map s)(h \<mapsto> Tuple2 (Tensor tensor) (Tensor out))) \<and>
   (\<forall>f h sp. normalized_splits splits = Inr sp \<and>
      u_check_function lib u_alltoall_function_factory tensor = Inr f \<and>
      call_async lib (submitted s) (AlltoallCall f tensor sp out (encode_name name)) = Inr h \<longrightarrow>
      fst (u_alltoall_async lib tensor splits out name s) = Inr h \<and>
      u_handle_map (snd (u_alltoall_async lib tensor splits out name s)) =
        (u_handle_map s)(h \<mapsto> Tuple3 (Tensor tensor) (Splits sp) (Tensor out)))"
proof (intro conjI allI impI)
  fix f h
  assume a: "set_divisor b op (device_type tensor) = Inr (d, op', ws) \<and>
      u_check_function lib u_allreduce_function_factory tensor = Inr f \<and>
      call_async lib (submitted s)
        (AllreduceCall f tensor out d (encode_name name) op' pre post) = Inr h"
  then have run: "u_allreduce_async b lib tensor out name op pre post s =
      submit_and_register lib (AllreduceCall f tensor out d (encode_name name) op' pre post)
        (Tuple2 (Tensor tensor) (Tensor out)) (s\<lparr>warnings := warnings s @ ws\<rparr>)"
    by (simp add: u_allreduce_async_submits)
  from a have answer: "call_async lib (submitted (s\<lparr>warnings := warnings s @ ws\<rparr>))
      (AllreduceCall f tensor out d (encode_name name) op' pre post) = Inr h"
    by simp
  show "fst (u_allreduce_async b lib tensor out name op pre post s) = Inr h"
    unfolding run by (rule submit_and_register_registers(1) [OF answer])
  show "u_handle_map (snd (u_allreduce_async b lib tensor out name op pre post s)) =
      (u_handle_map s)(h \<mapsto> Tuple2 (Tensor tensor) (Tensor out))"
    unfolding run by (simp add: submit_and_register_registers(2) [OF answer])
next
  fix f h
  assume a: "set_divisor b op (device_type tensor) = Inr (d, op', ws) \<and>
      u_check_function lib u_grouped_allreduce_function_factory tensor = Inr f \<and>
      call_async lib (submitted s)
        (GroupedAllreduceCall f (tensor # ts) outs d (encode_name name) op' pre post) = Inr h"
  then have run: "u_grouped_allreduce_async b lib (tensor # ts) outs name op pre post s =
      submit_and_register lib
        (GroupedAllreduceCall f (tensor # ts) outs d (encode_name name) op' pre post)
        (Tuple2 (Tensors (tensor # ts)) (Tensors outs)) (s\<lparr>warnings := warnings s @ ws\<rparr>)"
    by (simp add: u_grouped_allreduce_async_submits)
  from a have answer: "call_async lib (submitted (s\<lparr>warnings := warnings s @ ws\<rparr>))
      (GroupedAllreduceCall f (tensor # ts) outs d (encode_name name) op' pre post) = Inr h"
    by simp
  show "fst (u_grouped_allreduce_async b lib (tensor # ts) outs name op pre post s) = Inr h"
    unfolding run by (rule submit_and_register_registers(1) [OF answer])
  show "u_handle_map (snd (u_grouped_allreduce_async b lib (tensor # ts) outs name op pre post s)) =
      (u_handle_map s)(h \<mapsto> Tuple2 (Tensors (tensor # ts)) (Tensors outs))"
    unfolding run by (simp add: submit_and_register_registers(2) [OF answer])
next
  fix f h
  assume a: "u_check_function lib u_allgather_function_factory tensor = Inr f \<and>
      call_async lib (submitted s) (AllgatherCall f tensor out (encode_name name)) = Inr h"
  then have run: "u_allgather_async lib tensor out name s =
      submit_and_register lib (AllgatherCall f tensor out (encode_name name))
        (Tuple2 (Tensor tensor) (Tensor out)) s"
    by (simp add: u_allgather_async_submits)
  from a have answer:
    "call_async lib (submitted s) (AllgatherCall f tensor out (encode_name name)) = Inr h"
    by simp
  show "fst (u_allgather_async lib tensor out name s) = Inr h"
    unfolding run by (rule submit_and_register_registers(1) [OF answer])
  show "u_handle_map (snd (u_allgather_async lib tensor out name s)) =
      (u_handle_map s)(h \<mapsto> Tuple2 (Tensor tensor) (Tensor out))"
    unfolding run by (rule submit_and_register_registers(2) [OF answer])
next
  fix f h
  assume a: "u_check_function lib u_broadcast_function_factory tensor = Inr f \<and>
      call_async lib (submitted s)
        (BroadcastCall f tensor out root_rank (encode_name name)) = Inr h"
  then have run: "u_broadcast_async lib tensor out root_rank name s =
      submit_and_register lib (BroadcastCall f tensor out root_rank (encode_name name))
        (Tuple2 (Tensor tensor) (Tensor out)) s"
    by (simp add: u_broadcast_async_submits)
  from a have answer: "call_async lib (submitted s)
      (BroadcastCall f tensor out root_rank (encode_name name)) = Inr h"
    by simp
  show "fst (u_broadcast_async lib tensor out root_rank name s) = Inr h"
    unfolding run by (rule submit_and_register_registers(1) [OF answer])
  show "u_handle_map (snd (u_broadcast_async lib tensor out root_rank name s)) =
      (u_handle_map s)(h \<mapsto> Tuple2 (Tensor tensor) (Tensor out))"
    unfolding run by (rule submit_and_register_registers(2) [OF answer])
next
  fix f h sp
  assume a: "normalized_splits splits = Inr sp \<and>
      u_check_function lib u_alltoall_function_factory tensor = Inr f \<and>
      call_async lib (submitted s) (AlltoallCall f tensor sp out (encode_name name)) = Inr h"
  then have run: "u_alltoall_async lib tensor splits out name s =
      submit_and_register lib (AlltoallCall f tensor sp out (encode_name name))
        (Tuple3 (Tensor tensor) (Splits sp) (Tensor out)) s"
    by (simp add: u_alltoall_async_submits)
  from a have answer:
    "call_async lib (submitted s) (AlltoallCall f tensor sp out (encode_name name)) = Inr h"
    by simp
  show "fst (u_alltoall_async lib tensor splits out name s) = Inr h"
    unfolding run by (rule submit_and_register_registers(1) [OF answer])
  show "u_handle_map (snd (u_alltoall_async lib tensor splits out name s)) =
      (u_handle_map s)(h \<mapsto> Tuple3 (Tensor tensor) (Splits sp) (Tensor out))"
    unfolding run by (rule submit_and_register_registers(2) [OF answer])
qed

lemma check_cpu_float_others:
  "u_check_function float_lib u_broadcast_function_factory (cpu_float_tensor i) =
     Inr ''horovod_torch_broadcast_async_torch_FloatTensor''"
  "u_check_function float_lib u_alltoall_function_factory (cpu_float_tensor i) =
     Inr ''horovod_torch_alltoall_async_torch_FloatTensor''"
  by (simp_all add: u_check_function_def u_broadcast_function_factory_def
      u_alltoall_function_factory_def float_lib_def cpu_float_tensor_def replace_dot_def)

theorem registration_replaces_entry_witness:
  "u_handle_map pending_state 7 \<noteq> None \<and>
   fst (u_allreduce_async (topology 4 2 False True True True) repeating_lib
        (cpu_float_tensor 5) (cpu_float_tensor 6) None Sum 1 1 pending_state) = Inr 7 \<and>
   u_handle_map (snd (u_grouped_allreduce_async (topology 4 2 False True True True)
        repeating_lib [cpu_float_tensor 5] [cpu_float_tensor 6] None Sum 1 1 pending_state)) =
     [7 \<mapsto> Tuple2 (Tensors [cpu_float_tensor 5]) (Tensors [cpu_float_tensor 6])] \<and>
   fst (u_allgather_async repeating_lib (cpu_float_tensor 5) (cpu_float_tensor 6) None
        pending_state) = Inr 7 \<and>
   u_handle_map (snd (u_allgather_async repeating_lib (cpu_float_tensor 5) (cpu_float_tensor 6)
        None pending_state)) =
     [7 \<mapsto> Tuple2 (Tensor (cpu_float_tensor 5)) (Tensor (cpu_float_tensor 6))] \<and>
   u_handle_map (snd (u_broadcast_async repeating_lib (cpu_float_tensor 5) (cpu_float_tensor 6)
        0 None pending_state)) =
     [7 \<mapsto> Tuple2 (Tensor (cpu_float_tensor 5)) (Tensor (cpu_float_tensor 6))] \<and>
   u_handle_map (snd (u_alltoall_async repeating_lib (cpu_float_tensor 5) (SplitsList [1, 1])
        (cpu_float_tensor 6) None pending_state)) =
     [7 \<mapsto> Tuple3 (Tensor (cpu_float_tensor 5)) (Splits (NewInt32CpuTensor [1, 1]))
             (Tensor (cpu_float_tensor 6))]"
  using registration_replaces_entry [where lib = repeating_lib
      and tensor = "cpu_float_tensor 5" and out = "cpu_float_tensor 6" and name = None
      and s = pending_state and b = "topology 4 2 False True True True" and op = Sum
      and d = 1 and op' = Sum and ws = "[]" and ts = "[]" and outs = "[cpu_float_tensor 6]"
      and pre = 1 and post = 1 and root_rank = 0 and splits = "SplitsList [1, 1]"]
  by (simp add: check_repeating_lib check_cpu_float check_allgather_cpu_float
      check_grouped_cpu_float check_cpu_float_others call_async_repeating_lib set_divisor_Sum
      int32_range_def pending_state_def)

text \<open>
  C8 as stated fails: with an entry already stored under handle 7 and a native library that
  answers 7 again, the dispatch returns 7 and the entry is silently replaced.
\<close>

theorem second_registration_overwrites:
  "u_handle_map pending_state 7 =
     Some (Tuple2 (Tensor (cpu_float_tensor 1)) (Tensor (cpu_float_tensor 2))) \<and>
   fst (u_allreduce_async (topology 4 2 False True True True) repeating_lib
        (cpu_float_tensor 5) (cpu_float_tensor 6) None Sum 1 1 pending_state) = Inr 7 \<and>
   u_handle_map (snd (u_allreduce_async (topology 4 2 False True True True) repeating_lib
        (cpu_float_tensor 5) (cpu_float_tensor 6) None Sum 1 1 pending_state)) 7 =
     Some (Tuple2 (Tensor (cpu_float_tensor 5)) (Tensor (cpu_float_tensor 6)))"
proof -
  have check: "u_check_function repeating_lib u_allreduce_function_factory (cpu_float_tensor 5) =
      Inr ''horovod_torch_allreduce_async_torch_FloatTensor''"
    by (simp add: check_repeating_lib check_cpu_float)
  show ?thesis
    unfolding u_allreduce_async_submits [OF set_divisor_Sum check]
    by (simp add: submit_and_register_def call_async_repeating_lib pending_state_def Let_def)
qed

text \<open>
  C7, as amended. For a handle without an entry \<^verbatim>\<open>synchronize\<close> returns \<^verbatim>\<open>None\<close> and
  changes nothing. For a handle with an entry whose wait returns normally, it removes the
  entry and returns the last component of the stored tuple, which is the output; a second
  \<^verbatim>\<open>synchronize\<close> on that handle then returns \<^verbatim>\<open>None\<close>. When the wait raises, it raises
  \<^verbatim>\<open>HorovodInternalError\<close> and the entry stays.
\<close>

theorem synchronize_outcomes:
  "(u_handle_map s h = None \<longrightarrow> synchronize lib h s = (Inr None, s)) \<and>
   (\<forall>e. u_handle_map s h = Some e \<and> horovod_torch_wait_and_clear lib h = None \<longrightarrow>
      synchronize lib h s =
        (Inr (Some (tuple_last e)), s\<lparr>u_handle_map := (u_handle_map s)(h := None)\<rparr>) \<and>
      synchronize lib h (snd (synchronize lib h s)) = (Inr None, snd (synchronize lib h s))) \<and>
   (\<forall>e msg. u_handle_map s h = Some e \<and> horovod_torch_wait_and_clear lib h = Some msg \<longrightarrow>
      synchronize lib h s = (Inl (HorovodInternalError msg), s)) \<and>
   tuple_last (Tuple2 input out) = out \<and> tuple_last (Tuple3 input splits out) = out"
  by (simp add: synchronize_def)

theorem synchronize_outcomes_witness:
  "synchronize float_lib 8 pending_state = (Inr None, pending_state) \<and>
   synchronize float_lib 7 pending_state =
     (Inr (Some (Tensor (cpu_float_tensor 2))),
      pending_state\<lparr>u_handle_map := (u_handle_map pending_state)(7 := None)\<rparr>) \<and>
   synchronize float_lib 7 (snd (synchronize float_lib 7 pending_state)) =
     (Inr None, snd (synchronize float_lib 7 pending_state)) \<and>
   synchronize failing_wait_lib 7 pending_state =
     (Inl (HorovodInternalError ''NCCL error''), pending_state)"
  using synchronize_outcomes [where s = pending_state and h = 8 and lib = float_lib]
    synchronize_outcomes [where s = pending_state and h = 7 and lib = float_lib]
    synchronize_outcomes [where s = pending_state and h = 7 and lib = failing_wait_lib]
  by (simp add: pending_state_def float_lib_def failing_wait_lib_def synchronize_def)

text \<open>
  C7 as stated fails: for a handle with an entry whose wait raises, \<^verbatim>\<open>synchronize\<close>
  neither removes the entry nor returns the output.
\<close>

theorem failed_wait_keeps_entry:
  "u_handle_map pending_state 7 =
     Some (Tuple2 (Tensor (cpu_float_tensor 1)) (Tensor (cpu_float_tensor 2))) \<and>
   fst (synchronize failing_wait_lib 7 pending_state) =
     Inl (HorovodInternalError ''NCCL error'') \<and>
   u_handle_map (snd (synchronize failing_wait_lib 7 pending_state)) 7 =
     Some (Tuple2 (Tensor (cpu_float_tensor 1)) (Tensor (cpu_float_tensor 2)))"
  by (simp add: synchronize_def pending_state_def failing_wait_lib_def float_lib_def)

section \<open>Claims about the backward rules\<close>

text \<open>
  The reduction keeps the common shape, and its entry at a position is the sum of the ranks'
  entries at that position.
\<close>

lemma length_reduce_Sum:
  "gs \<noteq> [] \<Longrightarrow> \<forall>g\<in>set gs. length g = n \<Longrightarrow> length (reduce_Sum gs) = n"
  by (induction gs rule: reduce_Sum.induct) simp_all

lemma reduce_Sum_nth:
  fixes gs :: "'a::comm_monoid_add list list"
  shows "gs \<noteq> [] \<Longrightarrow> \<forall>g\<in>set gs. length g = n \<Longrightarrow> j < n \<Longrightarrow>
    reduce_Sum gs ! j = sum_list (map (\<lambda>g. g ! j) gs)"
proof (induction gs rule: reduce_Sum.induct)
  case 1
  then show ?case by simp
next
  case (2 t)
  then show ?case by simp
next
  case (3 t u us)
  have len: "length (reduce_Sum (u # us)) = n"
    using 3 by (intro length_reduce_Sum) simp_all
  have "reduce_Sum (u # us) ! j = sum_list (map (\<lambda>g. g ! j) (u # us))"
    using 3 by simp
  with 3 len show ?case
    by simp
qed

lemma rows_before_rank:
  "k \<le> length ts \<Longrightarrow> sum_list (take k (map length ts)) = (\<Sum>i<k. length (ts ! i))"
proof (induction k)
  case 0
  then show ?case by simp
next
  case (Suc k)
  then have "take (Suc k) (map length ts) = take k (map length ts) @ [length (ts ! k)]"
    by (simp add: take_Suc_conv_app_nth)
  with Suc show ?case
    by simp
qed

lemma length_gather_forward: "length (gather_forward ts) = sum_list (map length ts)"
  by (simp add: gather_forward_def length_concat)

lemma gather_forward_split:
  assumes "k < length ts"
  shows "gather_forward ts =
    gather_forward (take k ts) @ ts ! k @ gather_forward (drop (Suc k) ts)"
proof -
  have "ts = take k ts @ ts ! k # drop (Suc k) ts"
    using assms by (rule id_take_nth_drop)
  then have "concat ts = concat (take k ts @ ts ! k # drop (Suc k) ts)"
    by simp
  then show ?thesis
    by (simp add: gather_forward_def)
qed

lemma rows_of_rank_in_gathered:
  assumes "k < length ts"
  shows "narrow0 (gather_forward ts) (\<Sum>i<k. length (ts ! i)) (length (ts ! k)) = Inr (ts ! k)"
proof -
  have off: "(\<Sum>i<k. length (ts ! i)) = length (gather_forward (take k ts))"
    using assms by (simp add: length_gather_forward rows_before_rank [symmetric] take_map)
  show ?thesis
    unfolding off narrow0_def
    by (subst (1 2) gather_forward_split [OF assms]) simp
qed

lemma slice_within_gathered:
  assumes "k < length ts"
  shows "(\<Sum>i<k. length (ts ! i)) + length (ts ! k) \<le> length (gather_forward ts)"
proof -
  have "(\<Sum>i<k. length (ts ! i)) = length (gather_forward (take k ts))"
    using assms by (simp add: length_gather_forward rows_before_rank [symmetric] take_map)
  then show ?thesis
    by (subst gather_forward_split [OF assms]) simp
qed

text \<open>
  C5. Let rank \<open>i\<close> of \<open>N\<close> ranks contribute the tensor \<open>ts ! i\<close> with
  \<open>r\<^sub>i = length (ts ! i)\<close> rows, let every rank's incoming gradient have the shape of the
  gathered tensor, and let the engine answer the two collectives as the spec describes them.
  Then \<^verbatim>\<open>HorovodAllgather.backward\<close> on rank \<open>k\<close> returns the slice of the sum-reduced
  gradient that starts at the sum of \<open>r\<^sub>i\<close> over \<open>i < k\<close> and has exactly \<open>r\<^sub>k\<close> rows, and
  that slice of the gathered tensor is the tensor rank \<open>k\<close> contributed.
\<close>

theorem allgather_backward_recovers_rows:
  assumes "k < length ts"
    and "length grads = length ts"
    and "\<forall>g\<in>set grads. length g = length (gather_forward ts)"
    and "allreduce (grads ! k) Sum = Inr (reduce_Sum grads)"
    and "allgather [length (ts ! k)] = Inr (gather_forward (map (\<lambda>t. [length t]) ts))"
  shows
    "HorovodAllgather_backward allreduce allgather (length ts) k (length (ts ! k)) (grads ! k) =
       Inr (take (length (ts ! k)) (drop (\<Sum>i<k. length (ts ! i)) (reduce_Sum grads))) \<and>
     length (take (length (ts ! k)) (drop (\<Sum>i<k. length (ts ! i)) (reduce_Sum grads))) =
       length (ts ! k) \<and>
     narrow0 (gather_forward ts) (\<Sum>i<k. length (ts ! i)) (length (ts ! k)) = Inr (ts ! k)"
proof -
  have "grads \<noteq> []"
    using assms(1,2) by auto
  then have len: "length (reduce_Sum grads) = length (gather_forward ts)"
    using assms(3) by (rule length_reduce_Sum)
  have dims: "gather_forward (map (\<lambda>t. [length t]) ts) = map length ts"
    by (induction ts) (simp_all add: gather_forward_def)
  have view: "view1 (map length ts) (length ts) = Inr (map length ts)"
    by (simp add: view1_def)
  have lower: "narrow0 (map length ts) 0 k = Inr (take k (map length ts))"
    using assms(1) by (simp add: narrow0_def)
  have offset: "(if k \<noteq> 0 then sum_list (take k (map length ts)) else 0) =
      (\<Sum>i<k. length (ts ! i))"
    using assms(1) by (simp add: rows_before_rank)
  have fits: "(\<Sum>i<k. length (ts ! i)) + length (ts ! k) \<le> length (reduce_Sum grads)"
    unfolding len using assms(1) by (rule slice_within_gathered)
  have run: "HorovodAllgather_backward allreduce allgather (length ts) k (length (ts ! k))
      (grads ! k) =
      narrow0 (reduce_Sum grads) (if k \<noteq> 0 then sum_list (take k (map length ts)) else 0)
        (length (ts ! k))"
    by (simp add: HorovodAllgather_backward_def assms(4,5) dims view lower)
  have slice: "narrow0 (reduce_Sum grads) (\<Sum>i<k. length (ts ! i)) (length (ts ! k)) =
      Inr (take (length (ts ! k)) (drop (\<Sum>i<k. length (ts ! i)) (reduce_Sum grads)))"
    using fits by (simp add: narrow0_def)
  have size: "length (take (length (ts ! k)) (drop (\<Sum>i<k. length (ts ! i)) (reduce_Sum grads))) =
      length (ts ! k)"
    using fits by simp
  from run offset slice size rows_of_rank_in_gathered [OF assms(1)]
  show ?thesis
    by simp
qed

theorem allgather_backward_recovers_rows_witness:
  "HorovodAllgather_backward
     (\<lambda>g op. Inr (reduce_Sum [[1, 1, 1, 1, 1, 1, 1, 1, 1, 1], [1, 1, 1, 1, 1, 1, 1, 1, 1, 1],
        [1, 1, 1, 1, 1, 1, 1, 1, 1, 1], [1, 1, 1, 1, 1, 1, 1, 1, 1, 1 :: int]]))
     (\<lambda>d. Inr [2, 3, 1, 4]) 4 2 1 [1, 1, 1, 1, 1, 1, 1, 1, 1, 1] = Inr [4] \<and>
   narrow0 (gather_forward [[10, 11], [20, 21, 22], [30], [40, 41, 42, 43 :: int]]) 5 1 =
     Inr [30]"
  using allgather_backward_recovers_rows [where k = 2
      and ts = "[[10, 11], [20, 21, 22], [30], [40, 41, 42, 43 :: int]]"
      and grads = "[[1, 1, 1, 1, 1, 1, 1, 1, 1, 1], [1, 1, 1, 1, 1, 1, 1, 1, 1, 1],
        [1, 1, 1, 1, 1, 1, 1, 1, 1, 1], [1, 1, 1, 1, 1, 1, 1, 1, 1, 1 :: int]]"
      and allreduce = "\<lambda>g op. Inr (reduce_Sum [[1, 1, 1, 1, 1, 1, 1, 1, 1, 1],
        [1, 1, 1, 1, 1, 1, 1, 1, 1, 1], [1, 1, 1, 1, 1, 1, 1, 1, 1, 1],
        [1, 1, 1, 1, 1, 1, 1, 1, 1, 1 :: int]])"
      and allgather = "\<lambda>d. Inr [2, 3, 1, 4]"]
  by (simp add: gather_forward_def lessThan_nat_numeral eval_nat_numeral)

text \<open>
  On entries whose product with zero is zero, integers for one, the rule zeroes the
  gradient of every rank but the root.
\<close>

lemma broadcast_backward_exact_entries:
  fixes grads :: "'a::semiring_0 list list"
  assumes "allreduce (grads ! k) Sum = Inr (reduce_Sum grads)"
  shows "HorovodBroadcast_backward allreduce k root_rank (grads ! k) =
    Inr (if int k = root_rank then reduce_Sum grads
         else replicate (length (reduce_Sum grads)) 0)"
proof -
  have "map (\<lambda>x. x * 0) xs = replicate (length xs) (0::'a)" for xs
    by (induction xs) simp_all
  with assms show ?thesis
    by (simp add: HorovodBroadcast_backward_def)
qed

lemma float_value_times_zero: "x * 0 = (if is_finite x then 0 else NaN)" for x :: float_value
  by (cases x) (simp_all add: zero_float_value_def)

lemma finite_entries_zeroed:
  "list_all is_finite xs \<Longrightarrow>
   map (\<lambda>x. if is_finite x then 0 else NaN) xs = replicate (length xs) (0::float_value)"
  by (induction xs) simp_all

text \<open>
  C6, as amended. For every root rank, \<^verbatim>\<open>HorovodBroadcast.backward\<close> on floating-point
  gradients returns on the root rank the \<^verbatim>\<open>Sum\<close> reduction of the ranks' incoming
  gradients, and on every other rank that reduction multiplied entry by entry by zero: zero
  where the reduction is finite, NaN where it is infinite or NaN. A reduction that is finite
  throughout gives a gradient that is entirely zero.
\<close>

theorem broadcast_backward_root_only:
  fixes grads :: "float_value list list"
  assumes "allreduce (grads ! k) Sum = Inr (reduce_Sum grads)"
  shows
    "HorovodBroadcast_backward allreduce k root_rank (grads ! k) =
       Inr (if int k = root_rank then reduce_Sum grads
            else map (\<lambda>x. if is_finite x then 0 else NaN) (reduce_Sum grads)) \<and>
     (int k \<noteq> root_rank \<and> list_all is_finite (reduce_Sum grads) \<longrightarrow>
        HorovodBroadcast_backward allreduce k root_rank (grads ! k) =
          Inr (replicate (length (reduce_Sum grads)) 0))"
  using assms
  by (simp add: HorovodBroadcast_backward_def float_value_times_zero finite_entries_zeroed)

theorem broadcast_backward_root_only_witness:
  "HorovodBroadcast_backward
     (\<lambda>g op. Inr (reduce_Sum [[Finite 1, Finite 2], [Finite 3, PosInf], [Finite 5, NegInf]]))
     1 1 [Finite 3, PosInf] = Inr [Finite 9, NaN] \<and>
   HorovodBroadcast_backward
     (\<lambda>g op. Inr (reduce_Sum [[Finite 1, Finite 2], [Finite 3, Finite 4], [Finite 5, Finite 6]]))
     2 1 [Finite 5, Finite 6] = Inr [0, 0]"
  using broadcast_backward_root_only [where k = 1 and root_rank = 1
      and grads = "[[Finite 1, Finite 2], [Finite 3, PosInf], [Finite 5, NegInf]]"
      and allreduce = "\<lambda>g op. Inr (reduce_Sum
        [[Finite 1, Finite 2], [Finite 3, PosInf], [Finite 5, NegInf]])"]
    broadcast_backward_root_only [where k = 2 and root_rank = 1
      and grads = "[[Finite 1, Finite 2], [Finite 3, Finite 4], [Finite 5, Finite 6]]"
      and allreduce = "\<lambda>g op. Inr (reduce_Sum
        [[Finite 1, Finite 2], [Finite 3, Finite 4], [Finite 5, Finite 6]])"]
  by (simp add: zero_float_value_def)

text \<open>
  C6 as stated fails: with the root at rank 0 and an infinite entry in the reduction, the
  gradient returned on rank 1 holds NaN at that entry and is not entirely zero.
\<close>

theorem non_root_gradient_holds_nan:
  "HorovodBroadcast_backward
     (\<lambda>g op. Inr (reduce_Sum [[Finite 1, PosInf], [Finite 2, Finite 3]])) 1 0
     [Finite 2, Finite 3] = Inr [Finite 0, NaN] \<and>
   [Finite 0, NaN] \<noteq> [0, 0 :: float_value]"
  by (simp add: HorovodBroadcast_backward_def zero_float_value_def)

end
